theory Spec2Isabelle
  imports Main "HOL-Library.Word"
begin

section \<open>Python strings\<close>

text \<open>
  A Python \<open>str\<close> is a sequence of Unicode code points, and \<open>len\<close>, indexing and slicing
  count code points. A string is therefore a list of code points (natural numbers), not a
  list of bytes. \<open>ascii\<close> writes a literal: \<open>ascii ''NO''\<close> is the string \<open>"NO"\<close>.
\<close>

type_synonym pystr = "nat list"

definition ascii :: "string \<Rightarrow> pystr" where
  "ascii s = map of_char s"

text \<open>
  \<open>str.upper()\<close> replaces every code point by its full uppercase mapping, one code point
  at a time and independently of its neighbours; a mapping may be longer than one code
  point (U+00DF becomes \<open>"SS"\<close>). On ASCII the mapping is written out. Beyond ASCII it is
  the table of the Unicode database of the Python runtime, which is no part of the
  repository: the table \<open>U\<close> is a parameter, and what is proved holds for every table
  or, where that is said, for every stable one.
\<close>

definition upper_cp :: "(nat \<Rightarrow> nat list) \<Rightarrow> nat \<Rightarrow> nat list" where
  "upper_cp U c =
     (if 97 \<le> c \<and> c \<le> 122 then [c - 32]
      else if c < 128 then [c]
      else U c)"

definition py_upper :: "(nat \<Rightarrow> nat list) \<Rightarrow> pystr \<Rightarrow> pystr" where
  "py_upper U s = concat (map (upper_cp U) s)"

section \<open>Team-code normalizer (nba\_schedule\_bot\_github.py, normalize\_team\_abbrev)\<close>

text \<open>The dictionary \<open>abbrev_map\<close> of the source, in the order it is written.\<close>

definition abbrev_map :: "(pystr \<times> pystr) list" where
  "abbrev_map =
     [(ascii ''NO'', ascii ''NOP''),
      (ascii ''SA'', ascii ''SAS''),
      (ascii ''NY'', ascii ''NYK''),
      (ascii ''GS'', ascii ''GSW''),
      (ascii ''UTAH'', ascii ''UTA'')]"

text \<open>
  The function follows the source statement by statement: the emptiness test comes first
  and returns the argument, then the argument is uppercased, looked up in the dictionary,
  and handled by length; the last \<open>return abbrev\<close> is the final \<open>else\<close>.
  \<open>abbrev[:3]\<close> is \<open>take 3\<close>, \<open>abbrev[-1]\<close> on a string of length 2 is \<open>last\<close>.
\<close>

definition normalize_team_abbrev :: "(nat \<Rightarrow> nat list) \<Rightarrow> pystr \<Rightarrow> pystr" where
  "normalize_team_abbrev U abbrev0 =
     (if abbrev0 = [] then abbrev0
      else
        let abbrev = py_upper U abbrev0 in
        case map_of abbrev_map abbrev of
          Some v \<Rightarrow> v
        | None \<Rightarrow>
            if length abbrev = 3 then abbrev
            else if length abbrev > 3 then take 3 abbrev
            else if length abbrev = 2 then abbrev @ [last abbrev]
            else if length abbrev = 1 then abbrev @ abbrev @ abbrev
            else abbrev)"

text \<open>
  A table of uppercase mappings is stable when uppercasing leaves every code point it
  produces unchanged. The table of CPython's Unicode database is stable: no code point has
  an uppercase mapping that changes when uppercased again.
\<close>

definition upper_stable :: "(nat \<Rightarrow> nat list) \<Rightarrow> bool" where
  "upper_stable U = (\<forall>c. 128 \<le> c \<longrightarrow> (\<forall>d \<in> set (U c). upper_cp U d = [d]))"

text \<open>
  A small table for concrete runs: U+00DF (sharp s) uppercases to \<open>"SS"\<close>, U+00E9 to
  U+00C9, every other code point beyond ASCII is left as it is.
\<close>

definition U0 :: "nat \<Rightarrow> nat list" where
  "U0 c = (if c = 223 then [83, 83] else if c = 233 then [201] else [c])"


section \<open>Python values\<close>

text \<open>
  An exception is one of the classes a handler of the program names, or any other
  \<open>Exception\<close> (\<open>TypeError\<close>, \<open>KeyError\<close>, \<open>OverflowError\<close> and the rest, which no
  handler tells apart), with its message \<open>str(e)\<close>. \<open>KeyboardInterrupt\<close> and the like,
  which no handler of the program catches, are left out.
\<close>

datatype pyexc =
    RequestException pystr
  | ValueError pystr
  | AttributeError pystr
  | OtherException pystr

fun exc_msg :: "pyexc \<Rightarrow> pystr" where
  "exc_msg (RequestException m) = m"
| "exc_msg (ValueError m) = m"
| "exc_msg (AttributeError m) = m"
| "exc_msg (OtherException m) = m"

text \<open>
  What \<open>response.json()\<close> returns is any JSON value, as the Python object it is parsed
  to: \<open>None\<close>, a \<open>bool\<close>, an \<open>int\<close>, a \<open>float\<close> (its 64 bits), a \<open>str\<close>, a \<open>list\<close>, or
  a \<open>dict\<close> with strings as keys (its items in order, no key twice). The variables
  \<open>away_team\<close>, \<open>home_team\<close> and \<open>team_matchup\<close> of the retrieval hold such values too.
\<close>

datatype json =
    JNull
  | JBool bool
  | JInt int
  | JFloat "64 word"
  | JStr pystr
  | JArr "json list"
  | JObj "(pystr \<times> json) list"

text \<open>The truth value of a value (\<open>if v\<close>, \<open>not v\<close>, \<open>a and b\<close>, \<open>a or b\<close>): \<open>None\<close>,
  \<open>False\<close>, a zero (the floats \<open>0.0\<close> and \<open>-0.0\<close>) and an empty string, list or dict are
  false, every other value is true.\<close>

fun py_truth :: "json \<Rightarrow> bool" where
  "py_truth JNull = False"
| "py_truth (JBool b) = b"
| "py_truth (JInt n) = (n \<noteq> 0)"
| "py_truth (JFloat f) = (f \<noteq> 0 \<and> f \<noteq> 0x8000000000000000)"
| "py_truth (JStr s) = (s \<noteq> [])"
| "py_truth (JArr xs) = (xs \<noteq> [])"
| "py_truth (JObj kvs) = (kvs \<noteq> [])"

text \<open>The name of the type of a value, as the messages of the interpreter write it.\<close>

fun type_name :: "json \<Rightarrow> pystr" where
  "type_name JNull = ascii ''NoneType''"
| "type_name (JBool b) = ascii ''bool''"
| "type_name (JInt n) = ascii ''int''"
| "type_name (JFloat f) = ascii ''float''"
| "type_name (JStr s) = ascii ''str''"
| "type_name (JArr xs) = ascii ''list''"
| "type_name (JObj kvs) = ascii ''dict''"

text \<open>The \<open>AttributeError\<close> of \<open>v.a\<close> for a value with no attribute \<open>a\<close>, and the
  \<open>TypeError\<close> of \<open>for x in v\<close> and of \<open>v[0]\<close> (39 is the quotation mark).\<close>

definition no_attribute :: "json \<Rightarrow> pystr \<Rightarrow> pyexc" where
  "no_attribute v a =
     AttributeError ([39] @ type_name v @ [39] @ ascii '' object has no attribute '' @ [39] @ a @ [39])"

definition not_iterable :: "json \<Rightarrow> pyexc" where
  "not_iterable v = OtherException ([39] @ type_name v @ [39] @ ascii '' object is not iterable'')"

definition not_subscriptable :: "json \<Rightarrow> pyexc" where
  "not_subscriptable v =
     OtherException ([39] @ type_name v @ [39] @ ascii '' object is not subscriptable'')"

text \<open>\<open>v.get(key, default)\<close>: only a dict has the method.\<close>

fun py_get :: "json \<Rightarrow> pystr \<Rightarrow> json \<Rightarrow> pyexc + json" where
  "py_get (JObj kvs) key dflt = Inr (case map_of kvs key of None \<Rightarrow> dflt | Some x \<Rightarrow> x)"
| "py_get JNull key dflt = Inl (no_attribute JNull (ascii ''get''))"
| "py_get (JBool b) key dflt = Inl (no_attribute (JBool b) (ascii ''get''))"
| "py_get (JInt n) key dflt = Inl (no_attribute (JInt n) (ascii ''get''))"
| "py_get (JFloat f) key dflt = Inl (no_attribute (JFloat f) (ascii ''get''))"
| "py_get (JStr s) key dflt = Inl (no_attribute (JStr s) (ascii ''get''))"
| "py_get (JArr xs) key dflt = Inl (no_attribute (JArr xs) (ascii ''get''))"

text \<open>\<open>for x in v\<close>: the elements of a list, the keys of a dict, the characters of a
  string; no other value can be iterated.\<close>

fun py_iter :: "json \<Rightarrow> pyexc + json list" where
  "py_iter (JArr xs) = Inr xs"
| "py_iter (JObj kvs) = Inr (map (\<lambda>kv. JStr (fst kv)) kvs)"
| "py_iter (JStr s) = Inr (map (\<lambda>c. JStr [c]) s)"
| "py_iter JNull = Inl (not_iterable JNull)"
| "py_iter (JBool b) = Inl (not_iterable (JBool b))"
| "py_iter (JInt n) = Inl (not_iterable (JInt n))"
| "py_iter (JFloat f) = Inl (not_iterable (JFloat f))"

text \<open>\<open>v[0]\<close>: the first element of a list, the first character of a string; a dict of
  JSON has no key \<open>0\<close> (\<open>KeyError(0)\<close>, whose text is \<open>0\<close>); an empty list or string
  has no index 0 (\<open>IndexError\<close>); no other value has an index.\<close>

fun py_first :: "json \<Rightarrow> pyexc + json" where
  "py_first (JArr (x # xs)) = Inr x"
| "py_first (JArr []) = Inl (OtherException (ascii ''list index out of range''))"
| "py_first (JStr (c # cs)) = Inr (JStr [c])"
| "py_first (JStr []) = Inl (OtherException (ascii ''string index out of range''))"
| "py_first (JObj kvs) = Inl (OtherException (ascii ''0''))"
| "py_first JNull = Inl (not_subscriptable JNull)"
| "py_first (JBool b) = Inl (not_subscriptable (JBool b))"
| "py_first (JInt n) = Inl (not_subscriptable (JInt n))"
| "py_first (JFloat f) = Inl (not_subscriptable (JFloat f))"

text \<open>
  The call \<open>normalize_team_abbrev(abbreviation)\<close> with a value that need not be a string,
  for a function \<open>f\<close> on strings that starts as the normalizer does (lines 33-37): a false
  value is returned as it is by \<open>if not abbrev: return abbrev\<close>, a string goes through
  the function, and any other true value has no method \<open>upper\<close>.
\<close>

definition normalize_value :: "(pystr \<Rightarrow> pystr) \<Rightarrow> json \<Rightarrow> pyexc + json" where
  "normalize_value f v =
     (if \<not> py_truth v then Inr v
      else case v of
             JStr s \<Rightarrow> Inr (JStr (f s))
           | _ \<Rightarrow> Inl (no_attribute v (ascii ''upper'')))"

section \<open>Library behaviour\<close>

text \<open>
  The program calls the Python runtime and three libraries (\<open>datetime\<close>, \<open>pytz\<close>,
  \<open>python-telegram-bot\<close>) whose code is no part of the repository. What they compute is
  collected in a record of functions, and every definition below takes it as its first
  argument \<open>L\<close>; the theorems hold for every such record.

  An instant is an integer number of microseconds since the epoch, in UTC (the resolution
  of \<open>datetime\<close>); a calendar date is the number of its day since the epoch.
  \<open>utcoffset L t\<close> is the offset of the zone \<open>TIMEZONE = "America/Phoenix"\<close> from UTC at
  the instant \<open>t\<close>, in microseconds, as the tz database gives it.
  \<open>datetime.fromisoformat\<close> returns a naive wall-clock time or a wall-clock time with an
  offset, or raises \<open>ValueError\<close> (the value \<open>None\<close>).
  \<open>astimezone L t\<close> is the exception that \<open>utc_time.astimezone(arizona_tz)\<close> raises for
  a time at the instant \<open>t\<close> (\<open>OverflowError\<close> when the date leaves the years 1 to 9999
  on the way), or \<open>None\<close> when it returns; the time it returns is at the same instant.
  \<open>py_str\<close> is \<open>str(v)\<close>, which an f-string writes for a value that is no string.
\<close>

type_synonym instant = int
type_synonym day = int

datatype parsed = Naive int | Aware int int

record lib =
  toupper :: "nat \<Rightarrow> nat list"
  lower :: "pystr \<Rightarrow> pystr"
  fromisoformat :: "pystr \<Rightarrow> parsed option"
  astimezone :: "instant \<Rightarrow> pyexc option"
  utcoffset :: "instant \<Rightarrow> int"
  strftime :: "pystr \<Rightarrow> instant \<Rightarrow> pystr"
  py_int :: "pystr \<Rightarrow> pyexc + int"
  py_str :: "json \<Rightarrow> pystr"

text \<open>\<open>datetime.now(arizona_tz).date()\<close> and \<open>local_time.date()\<close>: the calendar date, in
  the zone, of an instant.\<close>

definition local_date :: "lib \<Rightarrow> instant \<Rightarrow> day" where
  "local_date L t = (t + utcoffset L t) div 86400000000"


text \<open>Lines 100-101 of both retrieval functions: a parsed time with no offset is taken as
  UTC; the instant of a time with an offset is its wall clock less the offset.\<close>

fun ensure_utc :: "parsed \<Rightarrow> instant" where
  "ensure_utc (Naive wall) = wall"
| "ensure_utc (Aware wall off) = wall - off"

text \<open>\<open>s.endswith("Z")\<close>, \<open>s.replace("Z", "+00:00")\<close> (every \<open>Z\<close> is replaced),
  \<open>s.startswith(p)\<close>, \<open>sub in s\<close> and \<open>s.lstrip("0")\<close>.\<close>

definition endswith_Z :: "pystr \<Rightarrow> bool" where
  "endswith_Z s = (s \<noteq> [] \<and> last s = 90)"

definition replace_Z :: "pystr \<Rightarrow> pystr" where
  "replace_Z s = concat (map (\<lambda>c. if c = 90 then ascii ''+00:00'' else [c]) s)"

definition startswith :: "pystr \<Rightarrow> pystr \<Rightarrow> bool" where
  "startswith s p = (take (length p) s = p)"

fun contains :: "pystr \<Rightarrow> pystr \<Rightarrow> bool" where
  "contains sub [] = (sub = [])"
| "contains sub (c # cs) = (startswith (c # cs) sub \<or> contains sub cs)"

definition lstrip_0 :: "pystr \<Rightarrow> pystr" where
  "lstrip_0 s = dropWhile (\<lambda>c. c = 48) s"

text \<open>\<open>"\n".join(games)\<close>.\<close>

fun join_nl :: "pystr list \<Rightarrow> pystr" where
  "join_nl [] = []"
| "join_nl [x] = x"
| "join_nl (x # y # ys) = x @ [10] @ join_nl (y # ys)"

text \<open>Truth value of a variable that holds \<open>None\<close> or a string.\<close>

fun truthy :: "pystr option \<Rightarrow> bool" where
  "truthy None = False"
| "truthy (Some s) = (s \<noteq> [])"

text \<open>What an f-string writes for \<open>{v}\<close>: a string as it is, any other value by
  \<open>str\<close>.\<close>

definition py_format :: "lib \<Rightarrow> json \<Rightarrow> pystr" where
  "py_format L v = (case v of JStr s \<Rightarrow> s | _ \<Rightarrow> py_str L v)"

section \<open>The response of the scoreboard\<close>

text \<open>
  The outcome of \<open>requests.get\<close>, \<open>raise_for_status\<close> and \<open>response.json()\<close> together
  is an exception or the parsed document, which can be any value. \<open>events_of\<close> is the
  head of the loop, \<open>for event in data.get("events", [])\<close>: the list of the values the
  loop goes through, or the exception of \<open>get\<close> or of the iteration.
\<close>

datatype http_result = Raises pyexc | Json json

definition events_of :: "json \<Rightarrow> pyexc + json list" where
  "events_of data =
     (case py_get data (ascii ''events'') (JArr []) of
        Inl e \<Rightarrow> Inl e
      | Inr evs \<Rightarrow> py_iter evs)"

text \<open>
  What the body of the loop over the events does with one event: \<open>continue\<close> with nothing
  appended (\<open>Skip\<close>), append an item (\<open>Keep\<close>), or raise an exception that leaves the
  loop (\<open>Abort\<close>). The handler of the inner \<open>try\<close>, \<open>except (ValueError, AttributeError)\<close>,
  skips the event; an exception of any other class is not caught there.
\<close>

datatype 'a step = Skip | Keep 'a | Abort pyexc

fun caught :: "pyexc \<Rightarrow> 'a step" where
  "caught (ValueError m) = Skip"
| "caught (AttributeError m) = Skip"
| "caught (RequestException m) = Abort (RequestException m)"
| "caught (OtherException m) = Abort (OtherException m)"


section \<open>Trigger monitor: retrieval (nba\_warning\_bot.py, get\_today\_games\_with\_times)\<close>

text \<open>
  \<open>nba_warning_bot.py\<close> imports \<open>normalize_team_abbrev\<close> and \<open>send_message_async\<close> from a
  module \<open>nba_schedule_bot\<close> that is not among the sources, so the retrieval takes the
  normalizer as the parameter \<open>norm\<close> (\<open>imported_normalizer\<close> below is that of the spec);
  on a value that is no string it is taken to behave as \<open>normalize_value\<close> says. The body
  of the loop over the competitors (lines 74-82), on the pair of the variables
  \<open>away_team\<close> and \<open>home_team\<close>; \<open>Inl e\<close> when it raises \<open>e\<close>:
\<close>

definition games_competitor ::
  "(pystr \<Rightarrow> pystr) \<Rightarrow> json \<times> json \<Rightarrow> json \<Rightarrow> pyexc + json \<times> json" where
  "games_competitor norm st competitor =
     (case py_get competitor (ascii ''team'') (JObj []) of
        Inl e \<Rightarrow> Inl e
      | Inr team \<Rightarrow>
          (case py_get team (ascii ''abbreviation'') (JStr []) of
             Inl e \<Rightarrow> Inl e
           | Inr abbrev_raw \<Rightarrow>
               (case normalize_value norm abbrev_raw of
                  Inl e \<Rightarrow> Inl e
                | Inr abbrev_norm \<Rightarrow>
                    (case py_get competitor (ascii ''homeAway'') JNull of
                       Inl e \<Rightarrow> Inl e
                     | Inr side \<Rightarrow>
                         Inr (if side = JStr (ascii ''away'') then (abbrev_norm, snd st)
                              else if side = JStr (ascii ''home'') then (fst st, abbrev_norm)
                              else st)))))"

fun games_competitors ::
  "(pystr \<Rightarrow> pystr) \<Rightarrow> json \<times> json \<Rightarrow> json list \<Rightarrow> pyexc + json \<times> json" where
  "games_competitors norm st [] = Inr st"
| "games_competitors norm st (competitor # rest) =
     (case games_competitor norm st competitor of
        Inl e \<Rightarrow> Inl e
      | Inr st' \<Rightarrow> games_competitors norm st' rest)"

text \<open>
  Lines 69-82: the variables \<open>away_team\<close> and \<open>home_team\<close> after the competitors of the
  first competition have been read (both \<open>None\<close> when \<open>competitions\<close> is false).
\<close>

definition games_teams :: "(pystr \<Rightarrow> pystr) \<Rightarrow> json \<Rightarrow> pyexc + json \<times> json" where
  "games_teams norm event =
     (case py_get event (ascii ''competitions'') (JArr []) of
        Inl e \<Rightarrow> Inl e
      | Inr competitions \<Rightarrow>
          if py_truth competitions then
            (case py_first competitions of
               Inl e \<Rightarrow> Inl e
             | Inr competition \<Rightarrow>
                 (case py_get competition (ascii ''competitors'') (JArr []) of
                    Inl e \<Rightarrow> Inl e
                  | Inr competitors \<Rightarrow>
                      (case py_iter competitors of
                         Inl e \<Rightarrow> Inl e
                       | Inr cs \<Rightarrow> games_competitors norm (JNull, JNull) cs)))
          else Inr (JNull, JNull))"

text \<open>
  Lines 84-90: the variable \<open>team_matchup\<close>. \<open>a or b or "Unknown"\<close> is the first of the
  three that is true; \<open>event.get("shortName", event.get("name", "Unknown"))\<close> evaluates
  the inner \<open>get\<close> first and returns the value of a key that is there, whatever it is.
\<close>

definition games_matchup :: "lib \<Rightarrow> json \<Rightarrow> json \<Rightarrow> json \<Rightarrow> pyexc + json" where
  "games_matchup L away_team home_team event =
     (if py_truth away_team \<and> py_truth home_team
      then Inr (JStr (py_format L away_team @ [47] @ py_format L home_team))
      else if py_truth away_team \<or> py_truth home_team
      then Inr (if py_truth away_team then away_team
                else if py_truth home_team then home_team
                else JStr (ascii ''Unknown''))
      else (case py_get event (ascii ''name'') (JStr (ascii ''Unknown'')) of
              Inl e \<Rightarrow> Inl e
            | Inr n \<Rightarrow> py_get event (ascii ''shortName'') n))"

text \<open>Lines 67-90 together: the label of an event, or the exception it raises.\<close>

definition games_label :: "lib \<Rightarrow> (pystr \<Rightarrow> pystr) \<Rightarrow> json \<Rightarrow> pyexc + json" where
  "games_label L norm event =
     (case games_teams norm event of
        Inl e \<Rightarrow> Inl e
      | Inr teams \<Rightarrow> games_matchup L (fst teams) (snd teams) event)"

text \<open>
  The body of the loop over the events (lines 46-94). Reading the date (lines 47-53) is
  outside the inner \<open>try\<close>, so what it raises leaves the loop. Inside it, a \<open>ValueError\<close>
  of \<open>fromisoformat\<close> is caught and the event skipped; what \<open>astimezone\<close> and the
  reading of the teams raise goes through the handler. The datetime \<open>local_time\<close> is
  kept as its instant.
\<close>

definition games_event ::
  "lib \<Rightarrow> (pystr \<Rightarrow> pystr) \<Rightarrow> day \<Rightarrow> json \<Rightarrow> (instant \<times> json) step" where
  "games_event L norm today event =
     (case py_get event (ascii ''date'') (JStr []) of
        Inl e \<Rightarrow> Abort e
      | Inr event_date \<Rightarrow>
          if \<not> py_truth event_date then Skip
          else
            (case event_date of
               JStr event_date_str \<Rightarrow>
                 (let event_date_str' =
                        (if endswith_Z event_date_str then replace_Z event_date_str
                         else event_date_str)
                  in
                  case fromisoformat L event_date_str' of
                    None \<Rightarrow> Skip
                  | Some p \<Rightarrow>
                      (let utc_time = ensure_utc p in
                       case astimezone L utc_time of
                         Some e \<Rightarrow> caught e
                       | None \<Rightarrow>
                           (let local_time = utc_time in
                            if local_date L local_time \<noteq> today then Skip
                            else
                              (case games_label L norm event of
                                 Inl e \<Rightarrow> caught e
                               | Inr team_matchup \<Rightarrow> Keep (local_time, team_matchup)))))
             | _ \<Rightarrow> Abort (no_attribute event_date (ascii ''endswith''))))"

text \<open>The loop: the items appended, in order, or the exception that left it.\<close>

fun games_loop ::
  "lib \<Rightarrow> (pystr \<Rightarrow> pystr) \<Rightarrow> day \<Rightarrow> json list \<Rightarrow> pyexc + (instant \<times> json) list" where
  "games_loop L norm today [] = Inr []"
| "games_loop L norm today (event # rest) =
     (case games_event L norm today event of
        Abort e \<Rightarrow> Inl e
      | Skip \<Rightarrow> games_loop L norm today rest
      | Keep g \<Rightarrow>
          (case games_loop L norm today rest of
             Inl e \<Rightarrow> Inl e
           | Inr games \<Rightarrow> Inr (g # games)))"

text \<open>
  The function: \<open>now\<close> is the clock it reads, \<open>http\<close> the outcome of the request. Both
  \<open>except\<close> clauses of the outer \<open>try\<close> return the empty list, whatever was raised and
  wherever. \<open>games.sort(key=lambda x: x[0])\<close> is a stable sort on the instant, as
  \<open>sort_key\<close> is.
\<close>

definition get_today_games_with_times ::
  "lib \<Rightarrow> (pystr \<Rightarrow> pystr) \<Rightarrow> instant \<Rightarrow> http_result \<Rightarrow> (instant \<times> json) list" where
  "get_today_games_with_times L norm now http =
     (let today = local_date L now in
      case http of
        Raises e \<Rightarrow> []
      | Json data \<Rightarrow>
          (case events_of data of
             Inl e \<Rightarrow> []
           | Inr evs \<Rightarrow>
               (case games_loop L norm today evs of
                  Inl e \<Rightarrow> []
                | Inr games \<Rightarrow> sort_key fst games)))"

text \<open>
  Modelled from the spec: the function \<open>normalize_team_abbrev\<close> of the module
  \<open>nba_schedule_bot\<close>, which \<open>nba_warning_bot.py\<close> imports and which is not among the
  sources. It is the Team-Code Normalizer of section 4.1 of the spec, rule by rule in the
  order of the spec: uppercase the input; return the mapped value of the exception table;
  a string of length 3 unchanged; of a longer one the first 3 characters; one of length 2
  with its last character appended; one of length 1 three times; the empty string
  unchanged. The exception table, which the spec does not list, is that of
  \<open>nba_schedule_bot_github.py\<close>. The constant \<open>TIMEZONE\<close> that the monitor imports from
  the same module is taken to be the zone of the digest.
\<close>

definition imported_normalizer :: "(nat \<Rightarrow> nat list) \<Rightarrow> pystr \<Rightarrow> pystr" where
  "imported_normalizer U s =
     (let u = py_upper U s in
      case map_of abbrev_map u of
        Some v \<Rightarrow> v
      | None \<Rightarrow>
          if length u = 3 then u
          else if length u > 3 then take 3 u
          else if length u = 2 then u @ [last u]
          else if length u = 1 then u @ u @ u
          else u)"

section \<open>Daily digest: retrieval (nba\_schedule\_bot\_github.py, get\_today\_schedule)\<close>

text \<open>
  The string constants are the code points the source file holds: the separator of a
  line, the text for a day with no games, and the mark every error text starts with.
\<close>

definition line_sep :: pystr where
  "line_sep = [32, 8218, 196, 238, 32]"

definition no_games_text :: pystr where
  "no_games_text = ascii ''No NBA games today '' @ [63743, 252, 232, 196]"

definition error_mark :: pystr where
  "error_mark = [8218, 249, 229]"

text \<open>Lines 115-124, the body of the loop over the competitors.\<close>

definition schedule_competitor :: "lib \<Rightarrow> json \<times> json \<Rightarrow> json \<Rightarrow> pyexc + json \<times> json" where
  "schedule_competitor L st competitor =
     (case py_get competitor (ascii ''team'') (JObj []) of
        Inl e \<Rightarrow> Inl e
      | Inr team \<Rightarrow>
          (case py_get team (ascii ''abbreviation'') (JStr []) of
             Inl e \<Rightarrow> Inl e
           | Inr abbrev_raw \<Rightarrow>
               (case normalize_value (normalize_team_abbrev (toupper L)) abbrev_raw of
                  Inl e \<Rightarrow> Inl e
                | Inr abbrev_norm \<Rightarrow>
                    (case py_get competitor (ascii ''homeAway'') JNull of
                       Inl e \<Rightarrow> Inl e
                     | Inr side \<Rightarrow>
                         Inr (if side = JStr (ascii ''away'') then (abbrev_norm, snd st)
                              else if side = JStr (ascii ''home'') then (fst st, abbrev_norm)
                              else st)))))"

fun schedule_competitors :: "lib \<Rightarrow> json \<times> json \<Rightarrow> json list \<Rightarrow> pyexc + json \<times> json" where
  "schedule_competitors L st [] = Inr st"
| "schedule_competitors L st (competitor # rest) =
     (case schedule_competitor L st competitor of
        Inl e \<Rightarrow> Inl e
      | Inr st' \<Rightarrow> schedule_competitors L st' rest)"

text \<open>Lines 110-124 and 127-134, as in the other file.\<close>

definition schedule_teams :: "lib \<Rightarrow> json \<Rightarrow> pyexc + json \<times> json" where
  "schedule_teams L event =
     (case py_get event (ascii ''competitions'') (JArr []) of
        Inl e \<Rightarrow> Inl e
      | Inr competitions \<Rightarrow>
          if py_truth competitions then
            (case py_first competitions of
               Inl e \<Rightarrow> Inl e
             | Inr competition \<Rightarrow>
                 (case py_get competition (ascii ''competitors'') (JArr []) of
                    Inl e \<Rightarrow> Inl e
                  | Inr competitors \<Rightarrow>
                      (case py_iter competitors of
                         Inl e \<Rightarrow> Inl e
                       | Inr cs \<Rightarrow> schedule_competitors L (JNull, JNull) cs)))
          else Inr (JNull, JNull))"

definition schedule_matchup :: "lib \<Rightarrow> json \<Rightarrow> json \<Rightarrow> json \<Rightarrow> pyexc + json" where
  "schedule_matchup L away_team home_team event =
     (if py_truth away_team \<and> py_truth home_team
      then Inr (JStr (py_format L away_team @ [47] @ py_format L home_team))
      else if py_truth away_team \<or> py_truth home_team
      then Inr (if py_truth away_team then away_team
                else if py_truth home_team then home_team
                else JStr (ascii ''Unknown''))
      else (case py_get event (ascii ''name'') (JStr (ascii ''Unknown'')) of
              Inl e \<Rightarrow> Inl e
            | Inr n \<Rightarrow> py_get event (ascii ''shortName'') n))"

definition schedule_label :: "lib \<Rightarrow> json \<Rightarrow> pyexc + json" where
  "schedule_label L event =
     (case schedule_teams L event of
        Inl e \<Rightarrow> Inl e
      | Inr teams \<Rightarrow> schedule_matchup L (fst teams) (snd teams) event)"

text \<open>
  The body of the loop over the events (lines 87-143), with \<open>Skip\<close> for \<open>continue\<close>,
  \<open>Keep line\<close> for \<open>games.append(line)\<close> and \<open>Abort e\<close> for an exception that the inner
  handler does not catch. What the handler prints is left out.
\<close>

definition schedule_event :: "lib \<Rightarrow> day \<Rightarrow> json \<Rightarrow> pystr step" where
  "schedule_event L today event =
     (case py_get event (ascii ''date'') (JStr []) of
        Inl e \<Rightarrow> Abort e
      | Inr event_date \<Rightarrow>
          if \<not> py_truth event_date then Skip
          else
            (case event_date of
               JStr event_date_str \<Rightarrow>
                 (let event_date_str' =
                        (if endswith_Z event_date_str then replace_Z event_date_str
                         else event_date_str)
                  in
                  case fromisoformat L event_date_str' of
                    None \<Rightarrow> Skip
                  | Some p \<Rightarrow>
                      (let utc_time = ensure_utc p in
                       case astimezone L utc_time of
                         Some e \<Rightarrow> caught e
                       | None \<Rightarrow>
                           (let local_time = utc_time in
                            if local_date L local_time \<noteq> today then Skip
                            else
                              (case schedule_label L event of
                                 Inl e \<Rightarrow> caught e
                               | Inr team_matchup \<Rightarrow>
                                   (let game_time =
                                          lstrip_0 (strftime L (ascii ''%I:%M %p %Z'') local_time)
                                    in Keep (py_format L team_matchup @ line_sep @ game_time))))))
             | _ \<Rightarrow> Abort (no_attribute event_date (ascii ''endswith''))))"

fun schedule_loop :: "lib \<Rightarrow> day \<Rightarrow> json list \<Rightarrow> pyexc + pystr list" where
  "schedule_loop L today [] = Inr []"
| "schedule_loop L today (event # rest) =
     (case schedule_event L today event of
        Abort e \<Rightarrow> Inl e
      | Skip \<Rightarrow> schedule_loop L today rest
      | Keep line \<Rightarrow>
          (case schedule_loop L today rest of
             Inl e \<Rightarrow> Inl e
           | Inr games \<Rightarrow> Inr (line # games)))"

text \<open>
  The body of the outer \<open>try\<close>: \<open>Inl e\<close> when it raises \<open>e\<close>, \<open>Inr text\<close> when it returns.
  The function itself turns every exception into a text that starts with the error mark
  (\<open>error_text\<close>, lines 150-153).
\<close>

definition schedule_try :: "lib \<Rightarrow> instant \<Rightarrow> http_result \<Rightarrow> pyexc + pystr" where
  "schedule_try L now http =
     (let today = local_date L now in
      case http of
        Raises e \<Rightarrow> Inl e
      | Json data \<Rightarrow>
          (case events_of data of
             Inl e \<Rightarrow> Inl e
           | Inr evs \<Rightarrow>
               (case schedule_loop L today evs of
                  Inl e \<Rightarrow> Inl e
                | Inr games \<Rightarrow> Inr (if games \<noteq> [] then join_nl games else no_games_text))))"

fun error_text :: "pyexc \<Rightarrow> pystr" where
  "error_text (RequestException m) = error_mark @ ascii '' Error fetching schedule: '' @ m"
| "error_text (ValueError m) = error_mark @ ascii '' Unexpected error: '' @ m"
| "error_text (AttributeError m) = error_mark @ ascii '' Unexpected error: '' @ m"
| "error_text (OtherException m) = error_mark @ ascii '' Unexpected error: '' @ m"

definition get_today_schedule :: "lib \<Rightarrow> instant \<Rightarrow> http_result \<Rightarrow> pyexc + pystr" where
  "get_today_schedule L now http =
     (case schedule_try L now http of
        Inr schedule_text \<Rightarrow> Inr schedule_text
      | Inl e \<Rightarrow> Inr (error_text e))"

text \<open>
  Notions the statements about the retrieval use. \<open>event_instant\<close> is the UTC instant of
  an event: that of the string under its key \<open>date\<close>, with a final \<open>Z\<close> read as UTC, a
  time with no offset taken as UTC and one with an offset moved by it; none when the
  event is no dict, or the key is missing, or its value is no string or empty or does not
  parse. \<open>digest_line\<close> is the line the digest prints for a game that starts at an instant
  and has a label (lines 137-139). \<open>kept\<close> are the items that a list of outcomes of the
  loop body appends, in order; \<open>abort_of\<close> is the first exception among the outcomes,
  the one that leaves the loop.
\<close>

definition event_instant :: "lib \<Rightarrow> json \<Rightarrow> instant option" where
  "event_instant L event =
     (case event of
        JObj kvs \<Rightarrow>
          (case map_of kvs (ascii ''date'') of
             Some (JStr s) \<Rightarrow>
               if s = [] then None
               else
                 (case fromisoformat L (if endswith_Z s then replace_Z s else s) of
                    None \<Rightarrow> None
                  | Some (Naive wall) \<Rightarrow> Some wall
                  | Some (Aware wall off) \<Rightarrow> Some (wall - off))
           | _ \<Rightarrow> None)
      | _ \<Rightarrow> None)"

definition digest_line :: "lib \<Rightarrow> instant \<times> json \<Rightarrow> pystr" where
  "digest_line L g =
     py_format L (snd g) @ line_sep @ lstrip_0 (strftime L (ascii ''%I:%M %p %Z'') (fst g))"

fun kept :: "'a step list \<Rightarrow> 'a list" where
  "kept [] = []"
| "kept (Skip # rest) = kept rest"
| "kept (Keep x # rest) = x # kept rest"
| "kept (Abort e # rest) = kept rest"

fun abort_of :: "'a step list \<Rightarrow> pyexc option" where
  "abort_of [] = None"
| "abort_of (Skip # rest) = abort_of rest"
| "abort_of (Keep x # rest) = abort_of rest"
| "abort_of (Abort e # rest) = Some e"

fun map_step :: "('a \<Rightarrow> 'b) \<Rightarrow> 'a step \<Rightarrow> 'b step" where
  "map_step f Skip = Skip"
| "map_step f (Keep x) = Keep (f x)"
| "map_step f (Abort e) = Abort e"


section \<open>Notifier (nba\_schedule\_bot\_github.py, send\_message\_async and send\_message)\<close>

text \<open>
  \<open>BOT_TOKEN\<close> and \<open>CHAT_ID\<close> are what \<open>os.getenv\<close> returned: a string, or \<open>None\<close>
  when the variable is not set. The bot API is given by what its three operations do when
  called: the constructor \<open>Bot(token=...)\<close> and \<open>send_message\<close> raise or not, \<open>get_me\<close>
  raises or returns the bot's user name. An exception here is any \<open>Exception\<close>;
  \<open>KeyboardInterrupt\<close> and the like, which no handler of the program catches, are left out.
  A function returns its result together with what it did, in order: the calls of the bot
  API and the diagnostics it printed.
\<close>

record config =
  BOT_TOKEN :: "pystr option"
  CHAT_ID :: "pystr option"

record telegram =
  Bot_init :: "pystr \<Rightarrow> pyexc option"
  get_me :: "pyexc + pystr"
  bot_send_message :: "int option \<Rightarrow> pystr \<Rightarrow> pyexc option"

datatype diag =
    Token_not_set
  | Send_unauthorized
  | Send_chat_not_found
  | Send_error pystr
  | Init_unauthorized
  | Init_error pystr
  | Wrapper_error pystr

datatype effect = Print diag | Call_get_me | Call_send_message "int option" pystr

text \<open>\<open>int(CHAT_ID) if isinstance(CHAT_ID, str) else CHAT_ID\<close>.\<close>

definition chat_id_of :: "lib \<Rightarrow> pystr option \<Rightarrow> pyexc + int option" where
  "chat_id_of L c =
     (case c of
        None \<Rightarrow> Inr None
      | Some s \<Rightarrow> (case py_int L s of Inl e \<Rightarrow> Inl e | Inr n \<Rightarrow> Inr (Some n)))"

text \<open>The diagnostic of the inner handler (lines 181-195).\<close>

definition send_diag :: "lib \<Rightarrow> pystr \<Rightarrow> diag" where
  "send_diag L error_msg =
     (if contains (ascii ''Unauthorized'') error_msg then Send_unauthorized
      else if contains (ascii ''Chat not found'') error_msg
              \<or> contains (ascii ''chat not found'') (lower L error_msg)
      then Send_chat_not_found
      else Send_error error_msg)"

text \<open>The body of the outer \<open>try\<close> (lines 167-195): \<open>Inl e\<close> when it raises \<open>e\<close>.\<close>

definition send_try :: "lib \<Rightarrow> config \<Rightarrow> telegram \<Rightarrow> pystr \<Rightarrow> (pyexc + bool) \<times> effect list" where
  "send_try L cfg tg message =
     (if \<not> truthy (BOT_TOKEN cfg) then (Inr False, [Print Token_not_set])
      else
        case Bot_init tg (the (BOT_TOKEN cfg)) of
          Some e \<Rightarrow> (Inl e, [])
        | None \<Rightarrow>
            (case chat_id_of L (CHAT_ID cfg) of
               Inl e \<Rightarrow> (Inl e, [])
             | Inr chat_id \<Rightarrow>
                 (case get_me tg of
                    Inl e \<Rightarrow> (Inl e, [Call_get_me])
                  | Inr username \<Rightarrow>
                      (case bot_send_message tg chat_id message of
                         None \<Rightarrow> (Inr True, [Call_get_me, Call_send_message chat_id message])
                       | Some send_error \<Rightarrow>
                           (Inr False,
                            [Call_get_me, Call_send_message chat_id message,
                             Print (send_diag L (exc_msg send_error))])))))"

text \<open>The function with its outer handler (lines 197-204), and its synchronous wrapper.\<close>

definition send_message_async ::
  "lib \<Rightarrow> config \<Rightarrow> telegram \<Rightarrow> pystr \<Rightarrow> (pyexc + bool) \<times> effect list" where
  "send_message_async L cfg tg message =
     (case send_try L cfg tg message of
        (Inr b, tr) \<Rightarrow> (Inr b, tr)
      | (Inl e, tr) \<Rightarrow>
          (Inr False,
           tr @ [Print (if contains (ascii ''Unauthorized'') (exc_msg e) then Init_unauthorized
                        else Init_error (exc_msg e))]))"

definition send_message :: "lib \<Rightarrow> config \<Rightarrow> telegram \<Rightarrow> pystr \<Rightarrow> (pyexc + bool) \<times> effect list" where
  "send_message L cfg tg message =
     (case send_message_async L cfg tg message of
        (Inr b, tr) \<Rightarrow> (Inr b, tr)
      | (Inl e, tr) \<Rightarrow> (Inr False, tr @ [Print (Wrapper_error (exc_msg e))]))"

section \<open>Daily digest: the process (nba\_schedule\_bot\_github.py, main)\<close>

text \<open>
  \<open>exit(n)\<close> ends the process with the code \<open>n\<close>; an exception that reaches \<open>main\<close>
  is \<open>Uncaught\<close>. The clock is read once by the retrieval and once for the header.
\<close>

datatype outcome = Exit int | Uncaught pyexc

definition header_mark :: pystr where
  "header_mark = [63743, 252, 232, 196]"

definition main ::
  "lib \<Rightarrow> config \<Rightarrow> telegram \<Rightarrow> instant \<Rightarrow> instant \<Rightarrow> http_result \<Rightarrow> outcome" where
  "main L cfg tg now_fetch now_msg http =
     (if \<not> truthy (BOT_TOKEN cfg) \<or> \<not> truthy (CHAT_ID cfg) then Exit 1
      else
        case get_today_schedule L now_fetch http of
          Inl e \<Rightarrow> Uncaught e
        | Inr schedule_text \<Rightarrow>
            if startswith schedule_text error_mark then Exit 1
            else
              let today_str = strftime L (ascii ''%b %d, %Y'') now_msg;
                  message =
                    header_mark @ ascii '' NBA Games Today ('' @ today_str @ ascii ''):''
                      @ [10, 10] @ schedule_text
              in
              (case fst (send_message L cfg tg message) of
                 Inr True \<Rightarrow> Exit 0
               | Inr False \<Rightarrow> Exit 1
               | Inl e \<Rightarrow> Uncaught e))"


section \<open>Trigger monitor: the checks and the loop (nba\_warning\_bot.py)\<close>

text \<open>
  A marker file is named by its trigger and the calendar date in its path
  (\<open>warning_sent_{now.date()}.txt\<close>, \<open>checkin_sent_{now.date()}.txt\<close>, in the directory
  the source names); the file system is the set of the marker files that exist, which
  nothing but the checks changes. The Notifier of the monitor is \<open>send_message_async\<close> of
  the module that is not among the sources: a call of it is recorded with the message,
  the clock of the check that made it, and the boolean it returned.
\<close>

datatype marker = Warning_file day | Checkin_file day

record call =
  msg :: pystr
  sent_at :: instant
  returned :: bool

record world =
  files :: "marker set"
  calls :: "call list"

definition WARNING_MESSAGE :: pystr where
  "WARNING_MESSAGE = ascii ''15 min warning until overnight check''"

definition CHECKIN_MESSAGE :: pystr where
  "CHECKIN_MESSAGE = ascii ''Hey! Checking in on if we should expect overnights tonight. Let me know and I can ready our in person bettor.''"

text \<open>\<open>games[-2]\<close> on a list of at least two games is the game at index \<open>len(games) - 2\<close>.\<close>

definition get_second_to_last_game_time ::
  "(instant \<times> json) list \<Rightarrow> (instant \<times> json) option" where
  "get_second_to_last_game_time games =
     (if length games < 2 then None else Some (games ! (length games - 2)))"

text \<open>
  \<open>with open(file, 'w') as f: f.write(str(now))\<close> writes the marker, or \<open>open\<close> raises
  and there is no file (the directory of the path is missing, say), or \<open>open\<close> has
  made the file and the writing raises.
\<close>

datatype file_result = Written | Open_raises pyexc | Write_raises pyexc

text \<open>
  What one call of a check reads from outside: its clock (\<open>now\<close>), the clock and the
  outcome of the request inside the retrieval, what the Notifier returns if it is
  called, and how the writing of the marker ends if it is tried.
  \<open>timedelta(minutes=15)\<close> is 900000000 microseconds; \<open>total_seconds()\<close> of a
  difference of \<open>d\<close> microseconds is at most 60 exactly when \<open>d\<close> is at most 60000000.
  A check returns its boolean, or raises what the writing of the marker raised
  (\<open>Inl e\<close>): it has no handler.
\<close>

record check_input =
  clock :: instant
  fetch_clock :: instant
  fetched :: http_result
  notifier_returns :: bool
  marker_write :: file_result

definition check_and_send_warning ::
  "lib \<Rightarrow> (pystr \<Rightarrow> pystr) \<Rightarrow> check_input \<Rightarrow> world \<Rightarrow> (pyexc + bool) \<times> world" where
  "check_and_send_warning L norm inp w =
     (let now = clock inp;
          games = get_today_games_with_times L norm (fetch_clock inp) (fetched inp)
      in
      if games = [] then (Inr False, w)
      else
        case get_second_to_last_game_time games of
          None \<Rightarrow> (Inr False, w)
        | Some second_to_last \<Rightarrow>
            let game_time = fst second_to_last;
                warning_time = game_time - 900000000;
                time_diff = \<bar>now - warning_time\<bar>
            in
            if time_diff \<le> 60000000 then
              let warning_file = Warning_file (local_date L now) in
              if warning_file \<in> files w then (Inr False, w)
              else
                let w' = w\<lparr>calls := calls w @
                            [\<lparr>msg = WARNING_MESSAGE, sent_at = now,
                              returned = notifier_returns inp\<rparr>]\<rparr>
                in
                if notifier_returns inp
                then (case marker_write inp of
                        Written \<Rightarrow> (Inr True, w'\<lparr>files := insert warning_file (files w')\<rparr>)
                      | Open_raises e \<Rightarrow> (Inl e, w')
                      | Write_raises e \<Rightarrow> (Inl e, w'\<lparr>files := insert warning_file (files w')\<rparr>))
                else (Inr False, w')
            else (Inr False, w))"

definition check_and_send_checkin ::
  "lib \<Rightarrow> (pystr \<Rightarrow> pystr) \<Rightarrow> check_input \<Rightarrow> world \<Rightarrow> (pyexc + bool) \<times> world" where
  "check_and_send_checkin L norm inp w =
     (let now = clock inp;
          games = get_today_games_with_times L norm (fetch_clock inp) (fetched inp)
      in
      if games = [] then (Inr False, w)
      else
        case get_second_to_last_game_time games of
          None \<Rightarrow> (Inr False, w)
        | Some second_to_last \<Rightarrow>
            let game_time = fst second_to_last;
                time_diff = \<bar>now - game_time\<bar>
            in
            if time_diff \<le> 60000000 then
              let checkin_file = Checkin_file (local_date L now) in
              if checkin_file \<in> files w then (Inr False, w)
              else
                let w' = w\<lparr>calls := calls w @
                            [\<lparr>msg = CHECKIN_MESSAGE, sent_at = now,
                              returned = notifier_returns inp\<rparr>]\<rparr>
                in
                if notifier_returns inp
                then (case marker_write inp of
                        Written \<Rightarrow> (Inr True, w'\<lparr>files := insert checkin_file (files w')\<rparr>)
                      | Open_raises e \<Rightarrow> (Inl e, w')
                      | Write_raises e \<Rightarrow> (Inl e, w'\<lparr>files := insert checkin_file (files w')\<rparr>))
                else (Inr False, w')
            else (Inr False, w))"






definition target_time :: "lib \<Rightarrow> (pystr \<Rightarrow> pystr) \<Rightarrow> check_input \<Rightarrow> instant option" where
  "target_time L norm inp =
     map_option fst
       (get_second_to_last_game_time
          (get_today_games_with_times L norm (fetch_clock inp) (fetched inp)))"


fun write_outcome :: "file_result \<Rightarrow> pyexc + bool" where
  "write_outcome Written = Inr True"
| "write_outcome (Open_raises e) = Inl e"
| "write_outcome (Write_raises e) = Inl e"

fun open_raises :: "file_result \<Rightarrow> bool" where
  "open_raises Written = False"
| "open_raises (Open_raises e) = True"
| "open_raises (Write_raises e) = False"



section \<open>Concrete library behaviour and inputs\<close>

text \<open>
  One library record and a few documents for concrete runs. The zone is seven hours behind
  UTC, as America/Phoenix is all year. \<open>fromisoformat0\<close> knows the strings of the runs and
  gives them the times Python gives them; every other string is a \<open>ValueError\<close>.
  \<open>astimezone0\<close> raises the \<open>OverflowError\<close> of \<open>datetime\<close> when the local time is
  before the year 1 or the instant after the year 9999. \<open>strftime0\<close> writes the clock
  format of the digest; for the date format of the header it gives the text of
  15 January 2024, the day of the runs. \<open>py_int0\<close> knows the chat ids of the runs and
  takes every other string as no number; \<open>py_str0\<close> writes \<open>None\<close> and the booleans.
\<close>

definition ascii_lower :: "pystr \<Rightarrow> pystr" where
  "ascii_lower s = map (\<lambda>c. if 65 \<le> c \<and> c \<le> 90 then c + 32 else c) s"

definition fromisoformat0 :: "pystr \<Rightarrow> parsed option" where
  "fromisoformat0 s =
     map_of
       [(ascii ''2024-01-16T00:30+00:00'', Aware 1705365000000000 0),
        (ascii ''2024-01-16T02:00+00:00'', Aware 1705370400000000 0),
        (ascii ''2024-01-16T03:30+00:00'', Aware 1705375800000000 0),
        (ascii ''2024-01-15T02:00+00:00'', Aware 1705284000000000 0),
        (ascii ''2024-01-16T02:00'', Naive 1705370400000000),
        (ascii ''2024-01-16T08:00+02:00'', Aware 1705392000000000 7200000000),
        (ascii ''0001-01-01T00:00+00:00'', Aware (- 62135596800000000) 0)] s"

definition astimezone0 :: "instant \<Rightarrow> pyexc option" where
  "astimezone0 t =
     (if t - 25200000000 < - 62135596800000000 \<or> 253402300799999999 < t
      then Some (OtherException (ascii ''date value out of range''))
      else None)"

definition two_digits :: "nat \<Rightarrow> pystr" where
  "two_digits n = [48 + n div 10, 48 + n mod 10]"

definition strftime0 :: "pystr \<Rightarrow> instant \<Rightarrow> pystr" where
  "strftime0 fmt t =
     (let secs = nat (((t - 25200000000) div 1000000) mod 86400);
          h = secs div 3600;
          m = (secs mod 3600) div 60
      in
      if fmt = ascii ''%I:%M %p %Z''
      then two_digits (if h mod 12 = 0 then 12 else h mod 12) @ [58] @ two_digits m
             @ (if h < 12 then ascii '' AM'' else ascii '' PM'') @ ascii '' MST''
      else ascii ''Jan 15, 2024'')"

definition py_int0 :: "pystr \<Rightarrow> pyexc + int" where
  "py_int0 s =
     (case map_of [(ascii ''42'', 42), (ascii ''-1001234567890'', - 1001234567890)] s of
        Some n \<Rightarrow> Inr n
      | None \<Rightarrow>
          Inl (ValueError (ascii ''invalid literal for int() with base 10: '' @ [39] @ s @ [39])))"

definition py_str0 :: "json \<Rightarrow> pystr" where
  "py_str0 v =
     (case v of
        JNull \<Rightarrow> ascii ''None''
      | JBool b \<Rightarrow> (if b then ascii ''True'' else ascii ''False'')
      | JStr s \<Rightarrow> s
      | _ \<Rightarrow> [])"

definition lib0 :: lib where
  "lib0 =
     \<lparr>toupper = U0, lower = ascii_lower, fromisoformat = fromisoformat0,
      astimezone = astimezone0, utcoffset = (\<lambda>t. - 25200000000), strftime = strftime0,
      py_int = py_int0, py_str = py_str0\<rparr>"

definition competitor0 :: "string \<Rightarrow> string \<Rightarrow> json" where
  "competitor0 side abbr =
     JObj [(ascii ''team'', JObj [(ascii ''abbreviation'', JStr (ascii abbr))]),
           (ascii ''homeAway'', JStr (ascii side))]"

definition game0 :: "string \<Rightarrow> string \<Rightarrow> string \<Rightarrow> json" where
  "game0 d away home =
     JObj [(ascii ''date'', JStr (ascii d)),
           (ascii ''competitions'',
            JArr [JObj [(ascii ''competitors'',
                         JArr [competitor0 ''home'' home, competitor0 ''away'' away])]])]"

text \<open>
  Three games of the local day 15 January 2024 (day 19737), at 17:30, 19:00 and 20:30
  local time; a game at 19:00 local time of the day before, whose UTC date is 15 January;
  an event with a date that does not parse; an event with no competitors, whose date has
  no offset; a game whose date is written with an offset of two hours, at 23:00 local
  time of the day; a game of the day whose home competitor has \<open>null\<close> for its team; an
  event dated the first day of the year 1. \<open>now0\<close> is 18:45 local time on
  15 January 2024.
\<close>

definition game_A :: json where
  "game_A = game0 ''2024-01-16T00:30Z'' ''NY'' ''BOS''"

definition game_B :: json where
  "game_B = game0 ''2024-01-16T02:00Z'' ''gs'' ''UTAH''"

definition game_C :: json where
  "game_C = game0 ''2024-01-16T03:30Z'' ''LAL'' ''PHX''"

definition game_before :: json where
  "game_before = game0 ''2024-01-15T02:00Z'' ''MIA'' ''ORL''"

definition game_tbd :: json where
  "game_tbd = game0 ''TBD'' ''DEN'' ''DAL''"

definition game_plain :: json where
  "game_plain =
     JObj [(ascii ''date'', JStr (ascii ''2024-01-16T02:00'')),
           (ascii ''shortName'', JStr (ascii ''EAST @ WEST'')),
           (ascii ''name'', JStr (ascii ''All-Star Game''))]"

definition game_offset :: json where
  "game_offset = game0 ''2024-01-16T08:00+02:00'' ''DEN'' ''DAL''"


definition game_year1 :: json where
  "game_year1 = game0 ''0001-01-01T00:00Z'' ''CHI'' ''DET''"

definition now0 :: instant where
  "now0 = 1705369500000000"

definition board :: "json list \<Rightarrow> http_result" where
  "board es = Json (JObj [(ascii ''events'', JArr es)])"

text \<open>
  A configuration with both variables set, and three bot APIs: one that delivers, one
  whose \<open>send_message\<close> raises, one whose \<open>get_me\<close> raises.
\<close>

definition cfg0 :: config where
  "cfg0 = \<lparr>BOT_TOKEN = Some (ascii ''123:abc''), CHAT_ID = Some (ascii ''42'')\<rparr>"

definition tg_up :: telegram where
  "tg_up =
     \<lparr>Bot_init = (\<lambda>t. None), get_me = Inr (ascii ''nba_bot''),
      bot_send_message = (\<lambda>c m. None)\<rparr>"

definition tg_lost :: telegram where
  "tg_lost =
     \<lparr>Bot_init = (\<lambda>t. None), get_me = Inr (ascii ''nba_bot''),
      bot_send_message = (\<lambda>c m. Some (OtherException (ascii ''Chat not found'')))\<rparr>"

definition tg_down :: telegram where
  "tg_down =
     \<lparr>Bot_init = (\<lambda>t. None), get_me = Inl (OtherException (ascii ''Timed out'')),
      bot_send_message = (\<lambda>c m. None)\<rparr>"

text \<open>
  For the monitor: a world with no marker file and no call yet, and the input of a check
  whose clock, and the clock of whose retrieval, is a given instant, whose response holds
  given events, whose Notifier returns a given boolean, and whose writing of the marker
  ends in a given way.
\<close>

definition world0 :: world where
  "world0 = \<lparr>files = {}, calls = []\<rparr>"

definition input_at :: "instant \<Rightarrow> json list \<Rightarrow> bool \<Rightarrow> file_result \<Rightarrow> check_input" where
  "input_at t es b fr =
     \<lparr>clock = t, fetch_clock = t, fetched = board es, notifier_returns = b,
      marker_write = fr\<rparr>"



section \<open>The normalizer: its rules and idempotence\<close>

lemma map_of_abbrev_cases:
  "map_of abbrev_map u =
     (if u = ascii ''NO'' then Some (ascii ''NOP'')
      else if u = ascii ''SA'' then Some (ascii ''SAS'')
      else if u = ascii ''NY'' then Some (ascii ''NYK'')
      else if u = ascii ''GS'' then Some (ascii ''GSW'')
      else if u = ascii ''UTAH'' then Some (ascii ''UTA'')
      else None)"
  by (simp add: abbrev_map_def)

lemma map_of_abbrev_None:
  "(map_of abbrev_map u = None) = (u \<notin> fst ` set abbrev_map)"
  by (simp add: map_of_eq_None_iff)

lemma py_upper_Nil: "py_upper U [] = []"
  by (simp add: py_upper_def)

lemma normalize_unfold:
  "normalize_team_abbrev U s =
     (case map_of abbrev_map (py_upper U s) of
        Some v \<Rightarrow> v
      | None \<Rightarrow>
          if length (py_upper U s) = 3 then py_upper U s
          else if length (py_upper U s) > 3 then take 3 (py_upper U s)
          else if length (py_upper U s) = 2 then py_upper U s @ [last (py_upper U s)]
          else if length (py_upper U s) = 1 then py_upper U s @ py_upper U s @ py_upper U s
          else py_upper U s)"
proof (cases "s = []")
  case True
  then show ?thesis
    by (simp add: normalize_team_abbrev_def py_upper_Nil map_of_abbrev_cases ascii_def)
next
  case False
  then show ?thesis
    by (simp add: normalize_team_abbrev_def Let_def)
qed

lemma imported_normalizer_eq: "imported_normalizer U = normalize_team_abbrev U"
  by (rule ext) (simp add: imported_normalizer_def normalize_unfold Let_def)

text \<open>
  Claim C4. For every input string, with \<open>u\<close> the uppercased input, the normalizer applies
  these rules in this order: if \<open>u\<close> is one of the five keys of the exception table the
  result is the mapped value; otherwise, if \<open>u\<close> has length 3 the result is \<open>u\<close>; if it
  is longer, its first 3 characters; if it has length 2, \<open>u\<close> with its last character
  appended; if it has length 1, the character three times; and the empty string is returned
  unchanged. So \<open>"no"\<close> gives \<open>"NOP"\<close> and \<open>"GS"\<close> gives \<open>"GSW"\<close>, whatever the table of
  uppercase mappings beyond ASCII.
\<close>

theorem normalize_team_abbrev_rules:
  "(let u = py_upper U s in
      (u = ascii ''NO'' \<longrightarrow> normalize_team_abbrev U s = ascii ''NOP'') \<and>
      (u = ascii ''SA'' \<longrightarrow> normalize_team_abbrev U s = ascii ''SAS'') \<and>
      (u = ascii ''NY'' \<longrightarrow> normalize_team_abbrev U s = ascii ''NYK'') \<and>
      (u = ascii ''GS'' \<longrightarrow> normalize_team_abbrev U s = ascii ''GSW'') \<and>
      (u = ascii ''UTAH'' \<longrightarrow> normalize_team_abbrev U s = ascii ''UTA'') \<and>
      (u \<notin> fst ` set abbrev_map \<longrightarrow>
         (length u = 3 \<longrightarrow> normalize_team_abbrev U s = u) \<and>
         (length u > 3 \<longrightarrow> normalize_team_abbrev U s = take 3 u) \<and>
         (length u = 2 \<longrightarrow> normalize_team_abbrev U s = u @ [last u]) \<and>
         (length u = 1 \<longrightarrow> normalize_team_abbrev U s = u @ u @ u) \<and>
         (length u = 0 \<longrightarrow> normalize_team_abbrev U s = u))) \<and>
   normalize_team_abbrev U [] = [] \<and>
   normalize_team_abbrev U (ascii ''no'') = ascii ''NOP'' \<and>
   normalize_team_abbrev U (ascii ''GS'') = ascii ''GSW''"
proof -
  have keys: "\<And>u. u \<notin> fst ` set abbrev_map \<Longrightarrow> map_of abbrev_map u = None"
    by (simp add: map_of_abbrev_None)
  have hit: "\<And>u v. map_of abbrev_map (py_upper U s) = Some v \<Longrightarrow> normalize_team_abbrev U s = v"
    by (simp add: normalize_unfold)
  have miss: "py_upper U s \<notin> fst ` set abbrev_map \<Longrightarrow>
      normalize_team_abbrev U s =
        (if length (py_upper U s) = 3 then py_upper U s
          else if length (py_upper U s) > 3 then take 3 (py_upper U s)
          else if length (py_upper U s) = 2 then py_upper U s @ [last (py_upper U s)]
          else if length (py_upper U s) = 1 then py_upper U s @ py_upper U s @ py_upper U s
          else py_upper U s)"
    using keys [of "py_upper U s"] by (simp add: normalize_unfold)
  have e: "normalize_team_abbrev U [] = []"
    by (simp add: normalize_team_abbrev_def)
  have no: "normalize_team_abbrev U (ascii ''no'') = ascii ''NOP''"
    by (simp add: normalize_team_abbrev_def ascii_def py_upper_def upper_cp_def abbrev_map_def)
  have gs: "normalize_team_abbrev U (ascii ''GS'') = ascii ''GSW''"
    by (simp add: normalize_team_abbrev_def ascii_def py_upper_def upper_cp_def abbrev_map_def)
  have k1: "py_upper U s = ascii ''NO'' \<Longrightarrow> normalize_team_abbrev U s = ascii ''NOP''"
    by (rule hit) (simp add: map_of_abbrev_cases)
  have k2: "py_upper U s = ascii ''SA'' \<Longrightarrow> normalize_team_abbrev U s = ascii ''SAS''"
    by (rule hit) (simp add: map_of_abbrev_cases ascii_def)
  have k3: "py_upper U s = ascii ''NY'' \<Longrightarrow> normalize_team_abbrev U s = ascii ''NYK''"
    by (rule hit) (simp add: map_of_abbrev_cases ascii_def)
  have k4: "py_upper U s = ascii ''GS'' \<Longrightarrow> normalize_team_abbrev U s = ascii ''GSW''"
    by (rule hit) (simp add: map_of_abbrev_cases ascii_def)
  have k5: "py_upper U s = ascii ''UTAH'' \<Longrightarrow> normalize_team_abbrev U s = ascii ''UTA''"
    by (rule hit) (simp add: map_of_abbrev_cases ascii_def)
  have m3: "py_upper U s \<notin> fst ` set abbrev_map \<Longrightarrow> length (py_upper U s) = 3 \<Longrightarrow>
      normalize_team_abbrev U s = py_upper U s"
    using miss by simp
  have m4: "py_upper U s \<notin> fst ` set abbrev_map \<Longrightarrow> length (py_upper U s) > 3 \<Longrightarrow>
      normalize_team_abbrev U s = take 3 (py_upper U s)"
    using miss by simp
  have m2: "py_upper U s \<notin> fst ` set abbrev_map \<Longrightarrow> length (py_upper U s) = 2 \<Longrightarrow>
      normalize_team_abbrev U s = py_upper U s @ [last (py_upper U s)]"
    using miss by simp
  have m1: "py_upper U s \<notin> fst ` set abbrev_map \<Longrightarrow> length (py_upper U s) = 1 \<Longrightarrow>
      normalize_team_abbrev U s = py_upper U s @ py_upper U s @ py_upper U s"
    using miss by simp
  have m0: "py_upper U s \<notin> fst ` set abbrev_map \<Longrightarrow> length (py_upper U s) = 0 \<Longrightarrow>
      normalize_team_abbrev U s = py_upper U s"
    using miss by simp
  show ?thesis
    unfolding Let_def using k1 k2 k3 k4 k5 m3 m4 m2 m1 m0 e no gs by blast
qed

text \<open>One input for each rule: the five keys in mixed case, lengths 3, 4, 2 and 1, a
  character whose uppercase mapping is two characters, and the empty string.\<close>

theorem normalize_team_abbrev_rules_witness:
  "normalize_team_abbrev U0 (ascii ''no'') = ascii ''NOP'' \<and>
   normalize_team_abbrev U0 (ascii ''Sa'') = ascii ''SAS'' \<and>
   normalize_team_abbrev U0 (ascii ''ny'') = ascii ''NYK'' \<and>
   normalize_team_abbrev U0 (ascii ''gS'') = ascii ''GSW'' \<and>
   normalize_team_abbrev U0 (ascii ''Utah'') = ascii ''UTA'' \<and>
   normalize_team_abbrev U0 (ascii ''phx'') = ascii ''PHX'' \<and>
   normalize_team_abbrev U0 (ascii ''Bkn1'') = ascii ''BKN'' \<and>
   normalize_team_abbrev U0 (ascii ''la'') = ascii ''LAA'' \<and>
   normalize_team_abbrev U0 (ascii ''b'') = ascii ''BBB'' \<and>
   normalize_team_abbrev U0 [223] = ascii ''SSS'' \<and>
   normalize_team_abbrev U0 [] = []"
proof -
  have u: "py_upper U0 (ascii ''no'') = ascii ''NO''"
      "py_upper U0 (ascii ''Sa'') = ascii ''SA''"
      "py_upper U0 (ascii ''ny'') = ascii ''NY''"
      "py_upper U0 (ascii ''gS'') = ascii ''GS''"
      "py_upper U0 (ascii ''Utah'') = ascii ''UTAH''"
      "py_upper U0 (ascii ''phx'') = ascii ''PHX''"
      "py_upper U0 (ascii ''Bkn1'') = ascii ''BKN1''"
      "py_upper U0 (ascii ''la'') = ascii ''LA''"
      "py_upper U0 (ascii ''b'') = ascii ''B''"
      "py_upper U0 [223] = ascii ''SS''"
    by (simp_all add: py_upper_def upper_cp_def ascii_def U0_def)
  have nk: "ascii ''PHX'' \<notin> fst ` set abbrev_map" "ascii ''BKN1'' \<notin> fst ` set abbrev_map"
      "ascii ''LA'' \<notin> fst ` set abbrev_map" "ascii ''B'' \<notin> fst ` set abbrev_map"
      "ascii ''SS'' \<notin> fst ` set abbrev_map"
    by (simp_all add: abbrev_map_def ascii_def)
  show ?thesis
    using normalize_team_abbrev_rules [of U0 "ascii ''no''"]
      normalize_team_abbrev_rules [of U0 "ascii ''Sa''"]
      normalize_team_abbrev_rules [of U0 "ascii ''ny''"]
      normalize_team_abbrev_rules [of U0 "ascii ''gS''"]
      normalize_team_abbrev_rules [of U0 "ascii ''Utah''"]
      normalize_team_abbrev_rules [of U0 "ascii ''phx''"]
      normalize_team_abbrev_rules [of U0 "ascii ''Bkn1''"]
      normalize_team_abbrev_rules [of U0 "ascii ''la''"]
      normalize_team_abbrev_rules [of U0 "ascii ''b''"]
      normalize_team_abbrev_rules [of U0 "[223]"]
    unfolding Let_def u using nk by (simp add: ascii_def)
qed

lemma py_upper_fixed: "\<forall>d \<in> set xs. upper_cp U d = [d] \<Longrightarrow> py_upper U xs = xs"
  by (induction xs) (simp_all add: py_upper_def)

lemma upper_cp_fixed:
  assumes "upper_stable U" and "d \<in> set (upper_cp U c)"
  shows "upper_cp U d = [d]"
proof (cases "c < 128")
  case True
  with assms(2) show ?thesis
    by (auto simp: upper_cp_def split: if_splits)
next
  case False
  then have "upper_cp U c = U c" and "128 \<le> c"
    by (simp_all add: upper_cp_def)
  with assms show ?thesis
    unfolding upper_stable_def by metis
qed

lemma py_upper_set_fixed:
  assumes "upper_stable U" and "d \<in> set (py_upper U s)"
  shows "upper_cp U d = [d]"
  using assms by (auto simp: py_upper_def dest: upper_cp_fixed)

lemma abbrev_values_fixed:
  "map_of abbrev_map u = Some v \<Longrightarrow> d \<in> set v \<Longrightarrow> upper_cp U d = [d]"
  by (auto simp: map_of_abbrev_cases ascii_def upper_cp_def split: if_splits)

lemma abbrev_values_length: "map_of abbrev_map u = Some v \<Longrightarrow> length v = 3"
  by (auto simp: map_of_abbrev_cases ascii_def split: if_splits)

lemma abbrev_keys_length: "length u = 3 \<Longrightarrow> map_of abbrev_map u = None"
  by (auto simp: map_of_abbrev_cases ascii_def)

lemma normalize_length: "normalize_team_abbrev U s = [] \<or> length (normalize_team_abbrev U s) = 3"
proof (cases "map_of abbrev_map (py_upper U s)")
  case (Some v)
  then show ?thesis
    by (simp add: normalize_unfold abbrev_values_length)
next
  case None
  have "length (py_upper U s) = 0 \<or> length (py_upper U s) = 1 \<or> length (py_upper U s) = 2 \<or>
        length (py_upper U s) = 3 \<or> length (py_upper U s) > 3"
    by arith
  then show ?thesis
    using None by (auto simp: normalize_unfold)
qed

lemma normalize_set_fixed:
  assumes "upper_stable U" and "d \<in> set (normalize_team_abbrev U s)"
  shows "upper_cp U d = [d]"
proof (cases "map_of abbrev_map (py_upper U s)")
  case (Some v)
  with assms(2) show ?thesis
    by (simp add: normalize_unfold abbrev_values_fixed [OF Some])
next
  case None
  have l: "length (py_upper U s) = 2 \<Longrightarrow> last (py_upper U s) \<in> set (py_upper U s)"
    by (rule last_in_set) auto
  have sub: "set (normalize_team_abbrev U s) \<subseteq> set (py_upper U s)"
    using None l by (auto simp: normalize_unfold dest: in_set_takeD)
  show ?thesis
    using sub assms py_upper_set_fixed by blast
qed

lemma normalize_upper_fixed:
  "upper_stable U \<Longrightarrow> py_upper U (normalize_team_abbrev U s) = normalize_team_abbrev U s"
  by (rule py_upper_fixed) (simp add: normalize_set_fixed)

lemma normalize_of_fixed3:
  "length t = 3 \<Longrightarrow> py_upper U t = t \<Longrightarrow> normalize_team_abbrev U t = t"
  by (simp add: normalize_unfold abbrev_keys_length)

text \<open>
  Claim C10. The normalizer is idempotent: normalizing its output gives the output again,
  for every input string, because every non-empty output has 3 characters, is unchanged
  by uppercasing and is no key of the exception table, and the empty string maps to
  itself. Uppercasing leaves the output unchanged because the table of uppercase mappings
  is stable, as the table of the Python runtime is.
\<close>

theorem normalize_team_abbrev_idempotent:
  assumes "upper_stable U"
  shows "normalize_team_abbrev U (normalize_team_abbrev U s) = normalize_team_abbrev U s \<and>
         (normalize_team_abbrev U s \<noteq> [] \<longrightarrow>
            length (normalize_team_abbrev U s) = 3 \<and>
            py_upper U (normalize_team_abbrev U s) = normalize_team_abbrev U s \<and>
            normalize_team_abbrev U s \<notin> fst ` set abbrev_map) \<and>
         normalize_team_abbrev U [] = []"
proof -
  let ?n = "normalize_team_abbrev U s"
  have e: "normalize_team_abbrev U [] = []"
    by (simp add: normalize_team_abbrev_def)
  have up: "py_upper U ?n = ?n"
    using assms by (rule normalize_upper_fixed)
  have len: "?n \<noteq> [] \<Longrightarrow> length ?n = 3"
    using normalize_length [of U s] by blast
  have nokey: "?n \<noteq> [] \<Longrightarrow> ?n \<notin> fst ` set abbrev_map"
    using len abbrev_keys_length [of ?n] by (simp add: map_of_abbrev_None)
  have idem: "normalize_team_abbrev U ?n = ?n"
  proof (cases "?n = []")
    case True
    then show ?thesis using e by simp
  next
    case False
    then show ?thesis using len up by (simp add: normalize_of_fixed3)
  qed
  show ?thesis using idem len up nokey e by blast
qed

text \<open>The table \<open>U0\<close> is stable; a two-character input whose uppercase has three
  characters, and a key of the exception table.\<close>

theorem normalize_team_abbrev_idempotent_witness:
  "upper_stable U0 \<and>
   normalize_team_abbrev U0 [223, 233] = [83, 83, 201] \<and>
   normalize_team_abbrev U0 [83, 83, 201] = [83, 83, 201] \<and>
   normalize_team_abbrev U0 (normalize_team_abbrev U0 (ascii ''utah'')) = ascii ''UTA''"
proof -
  have st: "upper_stable U0"
    by (auto simp: upper_stable_def U0_def upper_cp_def)
  have a: "normalize_team_abbrev U0 [223, 233] = [83, 83, 201]"
    by (simp add: normalize_unfold py_upper_def upper_cp_def U0_def map_of_abbrev_cases ascii_def)
  have b: "normalize_team_abbrev U0 (ascii ''utah'') = ascii ''UTA''"
    by (simp add: normalize_unfold py_upper_def upper_cp_def U0_def map_of_abbrev_cases ascii_def)
  show ?thesis
    using st a b normalize_team_abbrev_idempotent [OF st, of "[223, 233]"]
      normalize_team_abbrev_idempotent [OF st, of "ascii ''utah''"]
    by simp
qed


section \<open>Retrieval: what the two modes compute\<close>

lemma caught_not_Keep: "caught e \<noteq> Keep g"
  by (cases e) simp_all

lemma map_step_caught: "map_step f (caught e) = caught e"
  by (cases e) simp_all

lemma event_instant_Some:
  "event_instant L ev = Some t \<Longrightarrow>
   \<exists>kvs s p. ev = JObj kvs \<and> map_of kvs (ascii ''date'') = Some (JStr s) \<and> s \<noteq> [] \<and>
     fromisoformat L (if endswith_Z s then replace_Z s else s) = Some p \<and> ensure_utc p = t"
  by (auto simp: event_instant_def split: json.splits option.splits if_splits parsed.splits)

lemma games_event_eq:
  "event_instant L ev = Some t \<Longrightarrow>
   games_event L norm today ev =
     (case astimezone L t of
        Some e \<Rightarrow> caught e
      | None \<Rightarrow>
          if local_date L t \<noteq> today then Skip
          else (case games_label L norm ev of
                  Inl e \<Rightarrow> caught e
                | Inr lab \<Rightarrow> Keep (t, lab)))"
  by (drule event_instant_Some) (auto simp: games_event_def Let_def split: option.splits)

lemma schedule_event_eq:
  "event_instant L ev = Some t \<Longrightarrow>
   schedule_event L today ev =
     (case astimezone L t of
        Some e \<Rightarrow> caught e
      | None \<Rightarrow>
          if local_date L t \<noteq> today then Skip
          else (case schedule_label L ev of
                  Inl e \<Rightarrow> caught e
                | Inr lab \<Rightarrow> Keep (digest_line L (t, lab))))"
  by (drule event_instant_Some) (auto simp: schedule_event_def digest_line_def Let_def split: option.splits sum.splits)


lemma schedule_event_None:
  "event_instant L ev = None \<Longrightarrow> schedule_event L today ev \<noteq> Keep l"
  by (cases ev)
     (auto simp: schedule_event_def event_instant_def Let_def
        split: json.splits option.splits if_splits parsed.splits)


lemma schedule_event_Keep_iff:
  "schedule_event L today ev = Keep line \<longleftrightarrow>
     (\<exists>t lab. event_instant L ev = Some t \<and> astimezone L t = None \<and>
        local_date L t = today \<and> schedule_label L ev = Inr lab \<and>
        line = digest_line L (t, lab))"
proof (cases "event_instant L ev")
  case None
  then show ?thesis using schedule_event_None [of L ev today line] by simp
next
  case (Some t)
  show ?thesis
    unfolding schedule_event_eq [OF Some] Some
    by (auto simp: caught_not_Keep split: option.splits sum.splits)
qed

lemma competitor_same:
  "schedule_competitor L st c = games_competitor (normalize_team_abbrev (toupper L)) st c"
  by (simp add: schedule_competitor_def games_competitor_def)

lemma competitors_same:
  "schedule_competitors L st cs = games_competitors (normalize_team_abbrev (toupper L)) st cs"
  by (induction cs arbitrary: st) (simp_all add: competitor_same split: sum.splits)

lemma teams_same: "schedule_teams L ev = games_teams (normalize_team_abbrev (toupper L)) ev"
  by (simp add: schedule_teams_def games_teams_def competitors_same split: sum.splits)

lemma matchup_same: "schedule_matchup L a h ev = games_matchup L a h ev"
  by (simp add: schedule_matchup_def games_matchup_def)

lemma label_same: "schedule_label L ev = games_label L (normalize_team_abbrev (toupper L)) ev"
  by (simp add: schedule_label_def games_label_def teams_same matchup_same split: sum.splits)

lemma event_same:
  "schedule_event L today ev =
     map_step (digest_line L) (games_event L (normalize_team_abbrev (toupper L)) today ev)"
  by (simp add: schedule_event_def games_event_def label_same digest_line_def Let_def
        map_step_caught
      split: sum.splits option.splits json.splits)

lemma loop_same:
  "schedule_loop L today evs =
     (case games_loop L (normalize_team_abbrev (toupper L)) today evs of
        Inl e \<Rightarrow> Inl e
      | Inr gs \<Rightarrow> Inr (map (digest_line L) gs))"
  by (induction evs) (simp_all add: event_same split: step.splits sum.splits)

lemma games_loop_eq:
  "games_loop L norm today evs =
     (case abort_of (map (games_event L norm today) evs) of
        Some e \<Rightarrow> Inl e
      | None \<Rightarrow> Inr (kept (map (games_event L norm today) evs)))"
  by (induction evs) (simp_all split: step.splits sum.splits option.splits)

lemma schedule_loop_eq:
  "schedule_loop L today evs =
     (case abort_of (map (schedule_event L today) evs) of
        Some e \<Rightarrow> Inl e
      | None \<Rightarrow> Inr (kept (map (schedule_event L today) evs)))"
  by (induction evs) (simp_all split: step.splits sum.splits option.splits)

lemma get_games_Json:
  "get_today_games_with_times L norm now (Json data) =
     (case events_of data of
        Inl e \<Rightarrow> []
      | Inr evs \<Rightarrow>
          (case games_loop L norm (local_date L now) evs of
             Inl e \<Rightarrow> []
           | Inr gs \<Rightarrow> sort_key fst gs))"
  by (simp add: get_today_games_with_times_def)

lemma get_schedule_Json:
  "get_today_schedule L now (Json data) =
     Inr (case events_of data of
            Inl e \<Rightarrow> error_text e
          | Inr evs \<Rightarrow>
              (case schedule_loop L (local_date L now) evs of
                 Inl e \<Rightarrow> error_text e
               | Inr games \<Rightarrow> if games \<noteq> [] then join_nl games else no_games_text))"
  by (simp add: get_today_schedule_def schedule_try_def Let_def split: sum.splits)

lemma events_of_board: "events_of (JObj [(ascii ''events'', JArr es)]) = Inr es"
  by (simp add: events_of_def)

subsection \<open>Concrete runs of the retrieval\<close>

lemma lib0_sel:
  "toupper lib0 = U0" "lower lib0 = ascii_lower" "fromisoformat lib0 = fromisoformat0"
  "astimezone lib0 = astimezone0" "utcoffset lib0 = (\<lambda>t. - 25200000000)"
  "strftime lib0 = strftime0" "py_int lib0 = py_int0" "py_str lib0 = py_str0"
  by (simp_all add: lib0_def)

lemma local_date0: "local_date lib0 t = (t - 25200000000) div 86400000000"
  by (simp add: local_date_def lib0_sel)

lemma today0: "local_date lib0 now0 = 19737"
  by (simp add: local_date0 now0_def)

lemmas instant_eval = event_instant_def game0_def lib0_sel fromisoformat0_def
  endswith_Z_def replace_Z_def ascii_def

lemma inst_A: "event_instant lib0 game_A = Some 1705365000000000"
  by (simp add: game_A_def instant_eval)

lemma inst_B: "event_instant lib0 game_B = Some 1705370400000000"
  by (simp add: game_B_def instant_eval)

lemma inst_C: "event_instant lib0 game_C = Some 1705375800000000"
  by (simp add: game_C_def instant_eval)

lemma inst_before: "event_instant lib0 game_before = Some 1705284000000000"
  by (simp add: game_before_def instant_eval)

lemma inst_tbd: "event_instant lib0 game_tbd = None"
  by (simp add: game_tbd_def instant_eval)

lemma inst_plain: "event_instant lib0 game_plain = Some 1705370400000000"
  by (simp add: game_plain_def instant_eval)

lemma inst_offset: "event_instant lib0 game_offset = Some 1705384800000000"
  by (simp add: game_offset_def instant_eval)


lemma inst_year1: "event_instant lib0 game_year1 = Some (- 62135596800000000)"
  by (simp add: game_year1_def instant_eval)

lemma zone0:
  "astimezone lib0 1705365000000000 = None" "astimezone lib0 1705370400000000 = None"
  "astimezone lib0 1705375800000000 = None" "astimezone lib0 1705284000000000 = None"
  "astimezone lib0 1705384800000000 = None"
  "astimezone lib0 (- 62135596800000000) = Some (OtherException (ascii ''date value out of range''))"
  by (simp_all add: lib0_sel astimezone0_def)

lemma days_games:
  "local_date lib0 1705365000000000 = 19737" "local_date lib0 1705370400000000 = 19737"
  "local_date lib0 1705375800000000 = 19737" "local_date lib0 1705284000000000 = 19736"
  "local_date lib0 1705384800000000 = 19737"
  by (simp_all add: local_date0)

lemma teams_game0:
  "a \<noteq> [] \<Longrightarrow> h \<noteq> [] \<Longrightarrow>
   games_teams norm (game0 d a h) = Inr (JStr (norm (ascii a)), JStr (norm (ascii h)))"
  by (simp add: games_teams_def game0_def competitor0_def games_competitor_def
        normalize_value_def ascii_def)

lemmas norm_eval = normalize_team_abbrev_def py_upper_def upper_cp_def U0_def abbrev_map_def ascii_def

lemma label_A: "games_label lib0 (normalize_team_abbrev U0) game_A = Inr (JStr (ascii ''NYK/BOS''))"
  by (simp add: games_label_def game_A_def teams_game0 games_matchup_def py_format_def norm_eval)

lemma label_B: "games_label lib0 (normalize_team_abbrev U0) game_B = Inr (JStr (ascii ''GSW/UTA''))"
  by (simp add: games_label_def game_B_def teams_game0 games_matchup_def py_format_def norm_eval)

lemma label_C: "games_label lib0 (normalize_team_abbrev U0) game_C = Inr (JStr (ascii ''LAL/PHX''))"
  by (simp add: games_label_def game_C_def teams_game0 games_matchup_def py_format_def norm_eval)

lemma label_offset: "games_label lib0 (normalize_team_abbrev U0) game_offset = Inr (JStr (ascii ''DEN/DAL''))"
  by (simp add: games_label_def game_offset_def teams_game0 games_matchup_def py_format_def norm_eval)

lemma label_plain: "games_label L norm game_plain = Inr (JStr (ascii ''EAST @ WEST''))"
  by (simp add: games_label_def game_plain_def games_teams_def games_matchup_def ascii_def)


lemma ev_A: "games_event lib0 (normalize_team_abbrev U0) 19737 game_A = Keep (1705365000000000, JStr (ascii ''NYK/BOS''))"
  by (simp add: games_event_eq [OF inst_A] zone0 days_games label_A)

lemma ev_B: "games_event lib0 (normalize_team_abbrev U0) 19737 game_B = Keep (1705370400000000, JStr (ascii ''GSW/UTA''))"
  by (simp add: games_event_eq [OF inst_B] zone0 days_games label_B)

lemma ev_C: "games_event lib0 (normalize_team_abbrev U0) 19737 game_C = Keep (1705375800000000, JStr (ascii ''LAL/PHX''))"
  by (simp add: games_event_eq [OF inst_C] zone0 days_games label_C)

lemma ev_offset: "games_event lib0 (normalize_team_abbrev U0) 19737 game_offset = Keep (1705384800000000, JStr (ascii ''DEN/DAL''))"
  by (simp add: games_event_eq [OF inst_offset] zone0 days_games label_offset)

lemma ev_plain: "games_event lib0 norm 19737 game_plain = Keep (1705370400000000, JStr (ascii ''EAST @ WEST''))"
  by (simp add: games_event_eq [OF inst_plain] zone0 days_games label_plain)

lemma ev_before: "games_event lib0 norm 19737 game_before = Skip"
  by (simp add: games_event_eq [OF inst_before] zone0 days_games)

lemma ev_tbd: "games_event lib0 norm 19737 game_tbd = Skip"
  by (simp add: games_event_def game_tbd_def instant_eval)


lemma ev_year1:
  "games_event lib0 norm today game_year1 = Abort (OtherException (ascii ''date value out of range''))"
  by (simp add: games_event_eq [OF inst_year1] zone0)

lemma line_A: "digest_line lib0 (1705365000000000, JStr (ascii ''NYK/BOS'')) = ascii ''NYK/BOS'' @ line_sep @ ascii ''5:30 PM MST''"
  by (simp add: digest_line_def py_format_def lib0_sel strftime0_def two_digits_def lstrip_0_def ascii_def Let_def)

lemma line_B: "digest_line lib0 (1705370400000000, JStr (ascii ''GSW/UTA'')) = ascii ''GSW/UTA'' @ line_sep @ ascii ''7:00 PM MST''"
  by (simp add: digest_line_def py_format_def lib0_sel strftime0_def two_digits_def lstrip_0_def ascii_def Let_def)

lemma line_C: "digest_line lib0 (1705375800000000, JStr (ascii ''LAL/PHX'')) = ascii ''LAL/PHX'' @ line_sep @ ascii ''8:30 PM MST''"
  by (simp add: digest_line_def py_format_def lib0_sel strftime0_def two_digits_def lstrip_0_def ascii_def Let_def)

lemma line_offset: "digest_line lib0 (1705384800000000, JStr (ascii ''DEN/DAL'')) = ascii ''DEN/DAL'' @ line_sep @ ascii ''11:00 PM MST''"
  by (simp add: digest_line_def py_format_def lib0_sel strftime0_def two_digits_def lstrip_0_def ascii_def Let_def)

lemma sched_A: "schedule_event lib0 19737 game_A = Keep (ascii ''NYK/BOS'' @ line_sep @ ascii ''5:30 PM MST'')"
  by (simp add: event_same lib0_sel ev_A line_A)

lemma sched_B: "schedule_event lib0 19737 game_B = Keep (ascii ''GSW/UTA'' @ line_sep @ ascii ''7:00 PM MST'')"
  by (simp add: event_same lib0_sel ev_B line_B)

lemma sched_C: "schedule_event lib0 19737 game_C = Keep (ascii ''LAL/PHX'' @ line_sep @ ascii ''8:30 PM MST'')"
  by (simp add: event_same lib0_sel ev_C line_C)

lemma sched_offset: "schedule_event lib0 19737 game_offset = Keep (ascii ''DEN/DAL'' @ line_sep @ ascii ''11:00 PM MST'')"
  by (simp add: event_same lib0_sel ev_offset line_offset)

lemma sched_before: "schedule_event lib0 19737 game_before = Skip"
  by (simp add: event_same ev_before)

lemma sched_tbd: "schedule_event lib0 19737 game_tbd = Skip"
  by (simp add: event_same ev_tbd)


lemma sched_year1:
  "schedule_event lib0 today game_year1 = Abort (OtherException (ascii ''date value out of range''))"
  by (simp add: event_same ev_year1)

lemma get_games_board:
  "get_today_games_with_times L norm now (board evs) =
     (case games_loop L norm (local_date L now) evs of
        Inl e \<Rightarrow> []
      | Inr gs \<Rightarrow> sort_key fst gs)"
  by (simp add: board_def get_games_Json events_of_board)

lemma get_schedule_board:
  "get_today_schedule L now (board evs) =
     Inr (case schedule_loop L (local_date L now) evs of
            Inl e \<Rightarrow> error_text e
          | Inr games \<Rightarrow> if games \<noteq> [] then join_nl games else no_games_text)"
  by (simp add: board_def get_schedule_Json events_of_board)

lemma digest0:
  "get_today_schedule lib0 now0 (board [game_C, game_A]) =
     Inr (ascii ''LAL/PHX'' @ line_sep @ ascii ''8:30 PM MST'' @ [10] @
          ascii ''NYK/BOS'' @ line_sep @ ascii ''5:30 PM MST'')"
  by (simp add: get_schedule_board today0 sched_A sched_C)

subsection \<open>The local-day filter\<close>




subsection \<open>The two modes agree; the order of each\<close>






lemma sort_key_sorted_id: "sorted (map f xs) \<Longrightarrow> sort_key f xs = xs"
  by (induction xs) (auto simp: insort_is_Cons)

lemma games_sorted: "sorted (map fst (get_today_games_with_times L norm now http))"
  by (cases http) (simp_all add: get_today_games_with_times_def split: sum.splits)

text \<open>
  Claim C5, amended. The list that \<open>get_today_games_with_times\<close> returns is in ascending
  order of the kickoff instant: it is the stable sort of the kept games (the empty list
  when an exception left the loop). The lines of \<open>get_today_schedule\<close> are in the order of
  the response, the kept events one after the other; they are in ascending order of the
  kickoff instant when the kept events of the response are.
\<close>

theorem schedule_order:
  "sorted (map fst (get_today_games_with_times L norm now http)) \<and>
   get_today_games_with_times L norm now (Json data) =
     (case events_of data of
        Inl e \<Rightarrow> []
      | Inr evs \<Rightarrow>
          (case abort_of (map (games_event L norm (local_date L now)) evs) of
             Some e \<Rightarrow> []
           | None \<Rightarrow> sort_key fst (kept (map (games_event L norm (local_date L now)) evs)))) \<and>
   schedule_loop L today evs =
     (case abort_of (map (schedule_event L today) evs) of
        Some e \<Rightarrow> Inl e
      | None \<Rightarrow> Inr (kept (map (schedule_event L today) evs))) \<and>
   (games_loop L (imported_normalizer (toupper L)) today evs = Inr gs \<and>
    sorted (map fst gs) \<longrightarrow>
      schedule_loop L today evs = Inr (map (digest_line L) (sort_key fst gs)))"
proof -
  have b: "get_today_games_with_times L norm now (Json data) =
     (case events_of data of
        Inl e \<Rightarrow> []
      | Inr evs \<Rightarrow>
          (case abort_of (map (games_event L norm (local_date L now)) evs) of
             Some e \<Rightarrow> []
           | None \<Rightarrow> sort_key fst (kept (map (games_event L norm (local_date L now)) evs))))"
    by (simp add: get_games_Json games_loop_eq split: sum.splits option.splits)
  have c: "games_loop L (normalize_team_abbrev (toupper L)) today evs = Inr gs \<and>
    sorted (map fst gs) \<longrightarrow>
      schedule_loop L today evs = Inr (map (digest_line L) (sort_key fst gs))"
    by (simp add: loop_same sort_key_sorted_id)
  show ?thesis
    unfolding imported_normalizer_eq
    using b c games_sorted [of L norm now http] schedule_loop_eq [of L today evs] by blast
qed

text \<open>A response that lists the 17:30 game before the 20:30 game.\<close>

theorem schedule_order_witness:
  "games_loop lib0 (imported_normalizer U0) 19737 [game_A, game_C] =
     Inr [(1705365000000000, JStr (ascii ''NYK/BOS'')), (1705375800000000, JStr (ascii ''LAL/PHX''))] \<and>
   sorted (map fst [(1705365000000000 :: int, JStr (ascii ''NYK/BOS'')),
                    (1705375800000000, JStr (ascii ''LAL/PHX''))]) \<and>
   schedule_loop lib0 19737 [game_A, game_C] =
     Inr (map (digest_line lib0)
       (sort_key fst [(1705365000000000, JStr (ascii ''NYK/BOS'')),
                      (1705375800000000, JStr (ascii ''LAL/PHX''))])) \<and>
   schedule_loop lib0 19737 [game_A, game_C] =
     Inr [ascii ''NYK/BOS'' @ line_sep @ ascii ''5:30 PM MST'',
          ascii ''LAL/PHX'' @ line_sep @ ascii ''8:30 PM MST'']"
proof -
  let ?gs = "[(1705365000000000 :: int, JStr (ascii ''NYK/BOS'')),
              (1705375800000000, JStr (ascii ''LAL/PHX''))]"
  have g: "games_loop lib0 (normalize_team_abbrev U0) 19737 [game_A, game_C] = Inr ?gs"
    by (simp add: ev_A ev_C)
  have s: "sorted (map fst ?gs)"
    by simp
  note th = schedule_order [where L = lib0 and today = 19737 and evs = "[game_A, game_C]"
      and gs = ?gs, unfolded lib0_sel imported_normalizer_eq]
  have e: "schedule_loop lib0 19737 [game_A, game_C] =
      Inr (map (digest_line lib0) (sort_key fst ?gs))"
    using th g s by blast
  have v: "schedule_loop lib0 19737 [game_A, game_C] =
      Inr [ascii ''NYK/BOS'' @ line_sep @ ascii ''5:30 PM MST'',
           ascii ''LAL/PHX'' @ line_sep @ ascii ''8:30 PM MST'']"
    unfolding e by (simp add: line_A line_C)
  show ?thesis
    unfolding imported_normalizer_eq using g s e v by blast
qed

text \<open>
  Claim C5 as it is stated fails for the digest: for a response that lists the 20:30 game
  before the 17:30 game, the digest has the line of the later game first, and its lines
  are not the lines of the games in ascending order.
\<close>

theorem digest_order_counterexample:
  "event_instant lib0 game_C = Some 1705375800000000 \<and>
   event_instant lib0 game_A = Some 1705365000000000 \<and>
   (1705365000000000 :: int) < 1705375800000000 \<and>
   get_today_schedule lib0 now0 (board [game_C, game_A]) =
     Inr (ascii ''LAL/PHX'' @ line_sep @ ascii ''8:30 PM MST'' @ [10] @
          ascii ''NYK/BOS'' @ line_sep @ ascii ''5:30 PM MST'') \<and>
   schedule_loop lib0 19737 [game_C, game_A] \<noteq>
     Inr (map (digest_line lib0)
       (get_today_games_with_times lib0 (imported_normalizer U0) now0 (board [game_C, game_A])))"
proof -
  have g: "get_today_games_with_times lib0 (normalize_team_abbrev U0) now0 (board [game_C, game_A]) =
      [(1705365000000000, JStr (ascii ''NYK/BOS'')), (1705375800000000, JStr (ascii ''LAL/PHX''))]"
    by (simp add: get_games_board today0 ev_A ev_C)
  have s: "schedule_loop lib0 19737 [game_C, game_A] =
      Inr [digest_line lib0 (1705375800000000, JStr (ascii ''LAL/PHX'')),
           digest_line lib0 (1705365000000000, JStr (ascii ''NYK/BOS''))]"
    by (simp add: sched_A sched_C line_A line_C)
  have ne: "digest_line lib0 (1705375800000000, JStr (ascii ''LAL/PHX'')) \<noteq>
      digest_line lib0 (1705365000000000, JStr (ascii ''NYK/BOS''))"
    unfolding line_A line_C by (simp add: ascii_def)
  show ?thesis
    unfolding imported_normalizer_eq using inst_C inst_A digest0 g s ne by simp
qed

subsection \<open>Labels and the digest text\<close>

lemma schedule_matchup_both:
  "a \<noteq> [] \<Longrightarrow> h \<noteq> [] \<Longrightarrow>
   schedule_matchup L (JStr a) (JStr h) ev = Inr (JStr (a @ ascii ''/'' @ h))"
  by (simp add: schedule_matchup_def py_format_def ascii_def)

lemma schedule_matchup_one:
  "py_truth x \<Longrightarrow> \<not> py_truth y \<Longrightarrow>
   schedule_matchup L x y ev = Inr x \<and> schedule_matchup L y x ev = Inr x"
  by (simp add: schedule_matchup_def)

lemma schedule_matchup_none:
  "\<not> py_truth x \<Longrightarrow> \<not> py_truth y \<Longrightarrow>
   schedule_matchup L x y (JObj kvs) =
     Inr (case map_of kvs (ascii ''shortName'') of
            Some sn \<Rightarrow> sn
          | None \<Rightarrow>
              (case map_of kvs (ascii ''name'') of
                 Some n \<Rightarrow> n
               | None \<Rightarrow> JStr (ascii ''Unknown'')))"
  by (simp add: schedule_matchup_def split: option.splits)

lemma normalize_value_str:
  "normalize_value (normalize_team_abbrev U) (JStr s) = Inr (JStr (normalize_team_abbrev U s))"
  by (simp add: normalize_value_def normalize_team_abbrev_def)

lemma schedule_competitor_cases:
  "(case map_of ckvs (ascii ''team'') of None \<Rightarrow> JObj [] | Some v \<Rightarrow> v) = JObj tkvs \<Longrightarrow>
   (case map_of tkvs (ascii ''abbreviation'') of None \<Rightarrow> JStr [] | Some v \<Rightarrow> v) = JStr s \<Longrightarrow>
   schedule_competitor L st (JObj ckvs) =
     Inr (if map_of ckvs (ascii ''homeAway'') = Some (JStr (ascii ''away''))
          then (JStr (normalize_team_abbrev (toupper L) s), snd st)
          else if map_of ckvs (ascii ''homeAway'') = Some (JStr (ascii ''home''))
          then (fst st, JStr (normalize_team_abbrev (toupper L) s))
          else st)"
  by (auto simp: schedule_competitor_def normalize_value_str split: option.splits)

lemma schedule_event_Keep:
  "schedule_event L today ev = Keep line \<Longrightarrow>
   \<exists>t teams lab. event_instant L ev = Some t \<and> local_date L t = today \<and>
       schedule_teams L ev = Inr teams \<and>
       schedule_matchup L (fst teams) (snd teams) ev = Inr lab \<and>
       line = py_format L lab @ line_sep @ lstrip_0 (strftime L (ascii ''%I:%M %p %Z'') t)"
  by (auto simp: schedule_event_Keep_iff schedule_label_def digest_line_def split: sum.splits)

lemma kept_Nil_iff: "abort_of ss = None \<Longrightarrow> (kept ss = []) = (\<forall>s \<in> set ss. s = Skip)"
proof (induction ss)
  case Nil
  then show ?case by simp
next
  case (Cons s ss)
  then show ?case by (cases s) auto
qed

lemma all_Skip_no_abort: "\<forall>s \<in> set ss. s = Skip \<Longrightarrow> abort_of ss = None"
  by (induction ss) auto

lemma error_text_mark: "startswith (error_text e) error_mark"
  by (cases e) (simp_all add: startswith_def)

lemma schedule_text_all_skipped:
  assumes ev: "events_of data = Inr evs"
    and sk: "\<forall>e \<in> set evs. schedule_event L (local_date L now) e = Skip"
  shows "get_today_schedule L now (Json data) = Inr no_games_text"
proof -
  let ?ss = "map (schedule_event L (local_date L now)) evs"
  have all: "\<forall>s \<in> set ?ss. s = Skip" using sk by simp
  have a: "abort_of ?ss = None" by (rule all_Skip_no_abort [OF all])
  have k: "kept ?ss = []" using kept_Nil_iff [OF a] all by blast
  show ?thesis
    by (simp add: get_schedule_Json ev schedule_loop_eq a k)
qed

lemma schedule_text_lines:
  assumes ev: "events_of data = Inr evs"
    and a: "abort_of (map (schedule_event L (local_date L now)) evs) = None"
    and k: "\<exists>e \<in> set evs. \<exists>l. schedule_event L (local_date L now) e = Keep l"
  shows "get_today_schedule L now (Json data) =
     Inr (join_nl (kept (map (schedule_event L (local_date L now)) evs)))"
proof -
  let ?ss = "map (schedule_event L (local_date L now)) evs"
  obtain e l where el: "e \<in> set evs" "schedule_event L (local_date L now) e = Keep l"
    using k by blast
  have "Keep l \<in> set ?ss" using el by force
  then have "\<not> (\<forall>s \<in> set ?ss. s = Skip)" by blast
  then have ne: "kept ?ss \<noteq> []" using kept_Nil_iff [OF a] by blast
  show ?thesis
    by (simp add: get_schedule_Json ev schedule_loop_eq a ne)
qed

lemma schedule_text_abort:
  assumes ev: "events_of data = Inr evs"
    and a: "abort_of (map (schedule_event L (local_date L now)) evs) = Some e"
  shows "get_today_schedule L now (Json data) = Inr (error_text e)"
  by (simp add: get_schedule_Json ev schedule_loop_eq a)

text \<open>
  Claim C7, amended. In the digest the label of a kept event is the away code, a slash
  and the home code when both normalized codes are non-empty; the one code that is true
  when exactly one is; and when neither is, the value of the event's \<open>shortName\<close>, else
  of its \<open>name\<close>, else \<open>"Unknown"\<close>. The codes are the normalized abbreviations of the
  competitors marked \<open>away\<close> and \<open>home\<close>. The line of a kept event is its label, the
  separator and its time. When no exception leaves the loop over the events: with no
  events, or with every event skipped, the digest text is the fixed text for a day with
  no games; otherwise it is the lines of the kept events joined with newlines. When an
  exception leaves the loop, the digest text is the error text of that exception, which
  starts with the error mark, whatever events were kept before.
\<close>

theorem digest_label_and_text:
  "(a \<noteq> [] \<and> h \<noteq> [] \<longrightarrow>
      schedule_matchup L (JStr a) (JStr h) ev = Inr (JStr (a @ ascii ''/'' @ h))) \<and>
   (py_truth x \<and> \<not> py_truth y \<longrightarrow>
      schedule_matchup L x y ev = Inr x \<and> schedule_matchup L y x ev = Inr x) \<and>
   (\<not> py_truth x \<and> \<not> py_truth y \<longrightarrow>
      schedule_matchup L x y (JObj kvs) =
        Inr (case map_of kvs (ascii ''shortName'') of
               Some sn \<Rightarrow> sn
             | None \<Rightarrow>
                 (case map_of kvs (ascii ''name'') of
                    Some n \<Rightarrow> n
                  | None \<Rightarrow> JStr (ascii ''Unknown'')))) \<and>
   ((case map_of ckvs (ascii ''team'') of None \<Rightarrow> JObj [] | Some v \<Rightarrow> v) = JObj tkvs \<and>
    (case map_of tkvs (ascii ''abbreviation'') of None \<Rightarrow> JStr [] | Some v \<Rightarrow> v) = JStr s \<longrightarrow>
      schedule_competitor L st (JObj ckvs) =
        Inr (if map_of ckvs (ascii ''homeAway'') = Some (JStr (ascii ''away''))
             then (JStr (normalize_team_abbrev (toupper L) s), snd st)
             else if map_of ckvs (ascii ''homeAway'') = Some (JStr (ascii ''home''))
             then (fst st, JStr (normalize_team_abbrev (toupper L) s))
             else st)) \<and>
   (schedule_event L today ev = Keep line \<longrightarrow>
      (\<exists>t teams lab. event_instant L ev = Some t \<and> local_date L t = today \<and>
         schedule_teams L ev = Inr teams \<and>
         schedule_matchup L (fst teams) (snd teams) ev = Inr lab \<and>
         line = py_format L lab @ line_sep @ lstrip_0 (strftime L (ascii ''%I:%M %p %Z'') t))) \<and>
   (events_of data = Inr [] \<longrightarrow> get_today_schedule L now (Json data) = Inr no_games_text) \<and>
   (events_of data = Inr evs \<and>
    (\<forall>e \<in> set evs. schedule_event L (local_date L now) e = Skip) \<longrightarrow>
      get_today_schedule L now (Json data) = Inr no_games_text) \<and>
   (events_of data = Inr evs \<and>
    abort_of (map (schedule_event L (local_date L now)) evs) = None \<and>
    (\<exists>e \<in> set evs. \<exists>l. schedule_event L (local_date L now) e = Keep l) \<longrightarrow>
      get_today_schedule L now (Json data) =
        Inr (join_nl (kept (map (schedule_event L (local_date L now)) evs)))) \<and>
   (events_of data = Inr evs \<and>
    abort_of (map (schedule_event L (local_date L now)) evs) = Some e \<longrightarrow>
      get_today_schedule L now (Json data) = Inr (error_text e) \<and>
      startswith (error_text e) error_mark)"
proof -
  have e: "events_of data = Inr [] \<Longrightarrow> get_today_schedule L now (Json data) = Inr no_games_text"
    by (simp add: get_schedule_Json)
  show ?thesis
    using e schedule_matchup_both [of a h L ev] schedule_matchup_one [of x y L ev]
      schedule_matchup_none [of x y L kvs] schedule_competitor_cases [of ckvs tkvs s L st]
      schedule_event_Keep [of L today ev line]
      schedule_text_all_skipped [of data evs L now] schedule_text_lines [of data evs L now]
      schedule_text_abort [of data evs L now e] error_text_mark [of e]
    by blast
qed

text \<open>Each case of the label, the codes of a competitor, a response with nothing to keep,
  one with a game, and one whose second event raises.\<close>

theorem digest_label_and_text_witness:
  "schedule_matchup lib0 (JStr (ascii ''GSW'')) (JStr (ascii ''UTA'')) game_B =
     Inr (JStr (ascii ''GSW/UTA'')) \<and>
   schedule_matchup lib0 (JStr (ascii ''GSW'')) (JStr []) game_B = Inr (JStr (ascii ''GSW'')) \<and>
   schedule_matchup lib0 JNull (JStr (ascii ''GSW'')) game_B = Inr (JStr (ascii ''GSW'')) \<and>
   schedule_matchup lib0 JNull (JStr []) game_plain = Inr (JStr (ascii ''EAST @ WEST'')) \<and>
   schedule_matchup lib0 JNull JNull game_B = Inr (JStr (ascii ''Unknown'')) \<and>
   schedule_competitor lib0 (JNull, JNull) (competitor0 ''away'' ''gs'') =
     Inr (JStr (ascii ''GSW''), JNull) \<and>
   get_today_schedule lib0 now0 (board [game_before, game_tbd]) = Inr no_games_text \<and>
   get_today_schedule lib0 now0 (board [game_before, game_B]) =
     Inr (ascii ''GSW/UTA'' @ line_sep @ ascii ''7:00 PM MST'') \<and>
   get_today_schedule lib0 now0 (board [game_B, game_year1]) =
     Inr (error_text (OtherException (ascii ''date value out of range'')))"
proof -
  define kb where "kb = [(ascii ''date'', JStr (ascii ''2024-01-16T02:00Z'')),
           (ascii ''competitions'',
            JArr [JObj [(ascii ''competitors'',
                         JArr [competitor0 ''home'' ''UTAH'', competitor0 ''away'' ''gs''])]])]"
  define kp where "kp = [(ascii ''date'', JStr (ascii ''2024-01-16T02:00'')),
           (ascii ''shortName'', JStr (ascii ''EAST @ WEST'')),
           (ascii ''name'', JStr (ascii ''All-Star Game''))]"
  define kc where "kc = [(ascii ''team'', JObj [(ascii ''abbreviation'', JStr (ascii ''gs''))]),
           (ascii ''homeAway'', JStr (ascii ''away''))]"
  have gb: "game_B = JObj kb" by (simp add: game_B_def game0_def kb_def)
  have gp: "game_plain = JObj kp" by (simp add: game_plain_def kp_def)
  have gc: "competitor0 ''away'' ''gs'' = JObj kc" by (simp add: competitor0_def kc_def)
  have mb: "map_of kb (ascii ''shortName'') = None" "map_of kb (ascii ''name'') = None"
    by (simp_all add: kb_def ascii_def)
  have mp: "map_of kp (ascii ''shortName'') = Some (JStr (ascii ''EAST @ WEST''))"
    by (simp add: kp_def ascii_def)
  have mc: "map_of kc (ascii ''team'') = Some (JObj [(ascii ''abbreviation'', JStr (ascii ''gs''))])"
    "map_of kc (ascii ''homeAway'') = Some (JStr (ascii ''away''))"
    by (simp_all add: kc_def ascii_def)
  have ma: "map_of [(ascii ''abbreviation'', JStr (ascii ''gs''))] (ascii ''abbreviation'') =
      Some (JStr (ascii ''gs''))"
    by simp
  have t: "ascii ''GSW'' \<noteq> []" "ascii ''UTA'' \<noteq> []"
    by (simp_all add: ascii_def)
  have j: "ascii ''GSW'' @ ascii ''/'' @ ascii ''UTA'' = ascii ''GSW/UTA''"
    by (simp add: ascii_def)
  have n: "normalize_team_abbrev U0 (ascii ''gs'') = ascii ''GSW''"
    by (simp add: norm_eval)
  have m1: "schedule_matchup lib0 (JStr (ascii ''GSW'')) (JStr (ascii ''UTA'')) game_B =
      Inr (JStr (ascii ''GSW/UTA''))"
    using digest_label_and_text [where a = "ascii ''GSW''" and h = "ascii ''UTA''" and ev = game_B
        and L = lib0 and evs = "[]"] t j
    by simp
  have m2: "schedule_matchup lib0 (JStr (ascii ''GSW'')) (JStr []) game_B = Inr (JStr (ascii ''GSW''))"
    using digest_label_and_text [where x = "JStr (ascii ''GSW'')" and y = "JStr []" and ev = game_B
        and L = lib0 and evs = "[]"] t
    by simp
  have m3: "schedule_matchup lib0 JNull (JStr (ascii ''GSW'')) game_B = Inr (JStr (ascii ''GSW''))"
    using digest_label_and_text [where x = "JStr (ascii ''GSW'')" and y = JNull and ev = game_B
        and L = lib0 and evs = "[]"] t
    by simp
  have m4: "schedule_matchup lib0 JNull (JStr []) game_plain = Inr (JStr (ascii ''EAST @ WEST''))"
    using digest_label_and_text [where x = JNull and y = "JStr []" and kvs = kp
        and L = lib0 and evs = "[]"] mp
    unfolding gp by simp
  have m5: "schedule_matchup lib0 JNull JNull game_B = Inr (JStr (ascii ''Unknown''))"
    using digest_label_and_text [where x = JNull and y = JNull and kvs = kb
        and L = lib0 and evs = "[]"] mb
    unfolding gb by simp
  have c: "schedule_competitor lib0 (JNull, JNull) (competitor0 ''away'' ''gs'') =
      Inr (JStr (ascii ''GSW''), JNull)"
    using digest_label_and_text [where ckvs = kc
        and tkvs = "[(ascii ''abbreviation'', JStr (ascii ''gs''))]" and s = "ascii ''gs''"
        and st = "(JNull, JNull)" and L = lib0 and evs = "[]"] mc ma n
    unfolding gc by (simp add: lib0_sel)
  note th = digest_label_and_text [where L = lib0 and now = now0, unfolded today0]
  have g1: "get_today_schedule lib0 now0 (board [game_before, game_tbd]) = Inr no_games_text"
    using th [where data = "JObj [(ascii ''events'', JArr [game_before, game_tbd])]" and evs = "[game_before, game_tbd]"]
      events_of_board sched_before sched_tbd
    unfolding board_def by simp
  have g2: "get_today_schedule lib0 now0 (board [game_before, game_B]) =
      Inr (ascii ''GSW/UTA'' @ line_sep @ ascii ''7:00 PM MST'')"
    using th [where data = "JObj [(ascii ''events'', JArr [game_before, game_B])]" and evs = "[game_before, game_B]"]
      events_of_board sched_before sched_B
    unfolding board_def by simp
  have g3: "get_today_schedule lib0 now0 (board [game_B, game_year1]) =
     Inr (error_text (OtherException (ascii ''date value out of range'')))"
    using th [where data = "JObj [(ascii ''events'', JArr [game_B, game_year1])]" and evs = "[game_B, game_year1]"
        and e = "OtherException (ascii ''date value out of range'')"]
      events_of_board sched_B sched_year1
    unfolding board_def by simp
  show ?thesis
    using m1 m2 m3 m4 m5 c g1 g2 g3 by blast
qed

text \<open>
  Claim C7 as it is stated fails: for a response whose only event is dated the first day
  of the year 1, no event is kept and the digest text is not the text for a day with no
  games; for a response with the 19:00 game and that event, the digest text is not the
  line of the game. In both it is the text of the \<open>OverflowError\<close>.
\<close>

theorem digest_text_counterexample:
  "local_date lib0 now0 = 19737 \<and>
   schedule_event lib0 19737 game_year1 =
     Abort (OtherException (ascii ''date value out of range'')) \<and>
   get_today_schedule lib0 now0 (board [game_year1]) =
     Inr (error_mark @ ascii '' Unexpected error: date value out of range'') \<and>
   error_mark @ ascii '' Unexpected error: date value out of range'' \<noteq> no_games_text \<and>
   schedule_event lib0 19737 game_B =
     Keep (ascii ''GSW/UTA'' @ line_sep @ ascii ''7:00 PM MST'') \<and>
   get_today_schedule lib0 now0 (board [game_B, game_year1]) =
     Inr (error_mark @ ascii '' Unexpected error: date value out of range'') \<and>
   error_mark @ ascii '' Unexpected error: date value out of range'' \<noteq>
     join_nl [ascii ''GSW/UTA'' @ line_sep @ ascii ''7:00 PM MST'']"
proof -
  have t: "error_text (OtherException (ascii ''date value out of range'')) =
      error_mark @ ascii '' Unexpected error: date value out of range''"
    by (simp add: ascii_def)
  have g1: "get_today_schedule lib0 now0 (board [game_year1]) =
     Inr (error_mark @ ascii '' Unexpected error: date value out of range'')"
    by (simp add: get_schedule_board today0 sched_year1) (simp add: ascii_def)
  have g2: "get_today_schedule lib0 now0 (board [game_B, game_year1]) =
     Inr (error_mark @ ascii '' Unexpected error: date value out of range'')"
    by (simp add: get_schedule_board today0 sched_B sched_year1) (simp add: ascii_def)
  have n1: "error_mark @ ascii '' Unexpected error: date value out of range'' \<noteq> no_games_text"
    by (simp add: error_mark_def no_games_text_def ascii_def)
  have n2: "error_mark @ ascii '' Unexpected error: date value out of range'' \<noteq>
     join_nl [ascii ''GSW/UTA'' @ line_sep @ ascii ''7:00 PM MST'']"
    by (simp add: error_mark_def ascii_def)
  show ?thesis
    using today0 sched_year1 [of 19737] sched_B g1 g2 n1 n2 by blast
qed

section \<open>The Notifier returns a boolean\<close>

lemma send_try_cases:
  "send_try L cfg tg m =
     (if \<not> truthy (BOT_TOKEN cfg) then (Inr False, [Print Token_not_set])
      else if Bot_init tg (the (BOT_TOKEN cfg)) \<noteq> None
      then (Inl (the (Bot_init tg (the (BOT_TOKEN cfg)))), [])
      else case chat_id_of L (CHAT_ID cfg) of
             Inl e \<Rightarrow> (Inl e, [])
           | Inr chat_id \<Rightarrow>
               (case get_me tg of
                  Inl e \<Rightarrow> (Inl e, [Call_get_me])
                | Inr username \<Rightarrow>
                    (case bot_send_message tg chat_id m of
                       None \<Rightarrow> (Inr True, [Call_get_me, Call_send_message chat_id m])
                     | Some send_error \<Rightarrow>
                         (Inr False,
                          [Call_get_me, Call_send_message chat_id m,
                           Print (send_diag L (exc_msg send_error))]))))"
  by (simp add: send_try_def split: option.splits)

lemma send_try_True_iff:
  "(fst (send_try L cfg tg m) = Inr True) =
     (truthy (BOT_TOKEN cfg) \<and> Bot_init tg (the (BOT_TOKEN cfg)) = None \<and>
      (\<exists>cid. chat_id_of L (CHAT_ID cfg) = Inr cid \<and> (\<exists>u. get_me tg = Inr u) \<and>
             bot_send_message tg cid m = None))"
  by (auto simp: send_try_cases split: sum.splits option.splits)

lemma send_try_False_logged:
  "fst (send_try L cfg tg m) = Inr False \<Longrightarrow>
   \<exists>d. snd (send_try L cfg tg m) \<noteq> [] \<and> last (snd (send_try L cfg tg m)) = Print d"
  by (auto simp: send_try_cases split: sum.splits option.splits if_splits)

lemma send_message_async_fst:
  "fst (send_message_async L cfg tg m) =
     (case fst (send_try L cfg tg m) of Inr b \<Rightarrow> Inr b | Inl e \<Rightarrow> Inr False)"
  by (cases "send_try L cfg tg m") (auto simp: send_message_async_def split: sum.splits)

lemma send_message_async_Inr: "\<exists>b tr. send_message_async L cfg tg m = (Inr b, tr)"
  by (cases "send_try L cfg tg m") (auto simp: send_message_async_def split: sum.splits)

lemma send_message_same: "send_message L cfg tg m = send_message_async L cfg tg m"
  using send_message_async_Inr [of L cfg tg m] by (auto simp: send_message_def)

lemma send_message_async_True_iff:
  "(fst (send_message_async L cfg tg m) = Inr True) = (fst (send_try L cfg tg m) = Inr True)"
  by (simp add: send_message_async_fst split: sum.splits)

lemma send_message_async_logged:
  "fst (send_message_async L cfg tg m) \<noteq> Inr True \<Longrightarrow>
   fst (send_message_async L cfg tg m) = Inr False \<and>
   (\<exists>d. snd (send_message_async L cfg tg m) \<noteq> [] \<and>
        last (snd (send_message_async L cfg tg m)) = Print d)"
proof (cases "send_try L cfg tg m")
  case (Pair r tr)
  assume nt: "fst (send_message_async L cfg tg m) \<noteq> Inr True"
  show ?thesis
  proof (cases r)
    case (Inl e)
    with Pair show ?thesis by (simp add: send_message_async_def)
  next
    case (Inr b)
    with Pair nt have "b = False" by (simp add: send_message_async_def)
    with Pair Inr have f: "fst (send_try L cfg tg m) = Inr False" by simp
    from send_try_False_logged [OF f] Pair Inr \<open>b = False\<close> show ?thesis
      by (simp add: send_message_async_def)
  qed
qed

lemma send_no_token:
  "\<not> truthy (BOT_TOKEN cfg) \<Longrightarrow> send_message L cfg tg m = (Inr False, [Print Token_not_set])"
  by (simp add: send_message_def send_message_async_def send_try_def)

text \<open>
  Claim C8. For every message, \<open>send_message\<close> (and \<open>send_message_async\<close>) returns a
  boolean and raises nothing. With the bot token unset or empty it returns false, having
  printed one diagnostic and called nothing of the bot API. It returns true exactly when
  the constructor, the conversion of the chat id, \<open>get_me\<close> and \<open>send_message\<close> of
  the API all succeed; in every other case, whichever of them raised, it returns false and
  the last thing it did was to print a diagnostic.
\<close>

theorem send_message_returns_boolean:
  "(\<exists>b tr. send_message L cfg tg m = (Inr b, tr)) \<and>
   (\<exists>b tr. send_message_async L cfg tg m = (Inr b, tr)) \<and>
   (\<not> truthy (BOT_TOKEN cfg) \<longrightarrow>
      send_message L cfg tg m = (Inr False, [Print Token_not_set])) \<and>
   (fst (send_message L cfg tg m) = Inr True \<longleftrightarrow>
      truthy (BOT_TOKEN cfg) \<and> Bot_init tg (the (BOT_TOKEN cfg)) = None \<and>
      (\<exists>cid. chat_id_of L (CHAT_ID cfg) = Inr cid \<and> (\<exists>u. get_me tg = Inr u) \<and>
             bot_send_message tg cid m = None)) \<and>
   (fst (send_message L cfg tg m) \<noteq> Inr True \<longrightarrow>
      fst (send_message L cfg tg m) = Inr False \<and>
      (\<exists>d. snd (send_message L cfg tg m) \<noteq> [] \<and> last (snd (send_message L cfg tg m)) = Print d))"
proof -
  have a: "\<exists>b tr. send_message L cfg tg m = (Inr b, tr)"
    using send_message_async_Inr [of L cfg tg m] by (simp add: send_message_same)
  have t: "fst (send_message L cfg tg m) = Inr True \<longleftrightarrow>
      truthy (BOT_TOKEN cfg) \<and> Bot_init tg (the (BOT_TOKEN cfg)) = None \<and>
      (\<exists>cid. chat_id_of L (CHAT_ID cfg) = Inr cid \<and> (\<exists>u. get_me tg = Inr u) \<and>
             bot_send_message tg cid m = None)"
    by (simp add: send_message_same send_message_async_True_iff send_try_True_iff)
  have f: "fst (send_message L cfg tg m) \<noteq> Inr True \<Longrightarrow>
      fst (send_message L cfg tg m) = Inr False \<and>
      (\<exists>d. snd (send_message L cfg tg m) \<noteq> [] \<and> last (snd (send_message L cfg tg m)) = Print d)"
    using send_message_async_logged [of L cfg tg m] by (simp add: send_message_same)
  show ?thesis
    using a t f send_message_async_Inr [of L cfg tg m] send_no_token [of cfg L tg m] by blast
qed

lemma chat0: "chat_id_of lib0 (CHAT_ID cfg0) = Inr (Some 42)"
  by (simp add: chat_id_of_def cfg0_def lib0_sel py_int0_def ascii_def)

lemma sel0:
  "BOT_TOKEN cfg0 = Some (ascii ''123:abc'')" "CHAT_ID cfg0 = Some (ascii ''42'')"
  "Bot_init tg_up = (\<lambda>t. None)" "get_me tg_up = Inr (ascii ''nba_bot'')"
  "bot_send_message tg_up = (\<lambda>c m. None)"
  "Bot_init tg_lost = (\<lambda>t. None)" "get_me tg_lost = Inr (ascii ''nba_bot'')"
  "bot_send_message tg_lost = (\<lambda>c m. Some (OtherException (ascii ''Chat not found'')))"
  "Bot_init tg_down = (\<lambda>t. None)" "get_me tg_down = Inl (OtherException (ascii ''Timed out''))"
  "bot_send_message tg_down = (\<lambda>c m. None)"
  by (simp_all add: cfg0_def tg_up_def tg_lost_def tg_down_def)

lemma token0: "truthy (BOT_TOKEN cfg0)"
  by (simp add: sel0 ascii_def)

lemma try_up: "send_try lib0 cfg0 tg_up (ascii ''hello'') =
     (Inr True, [Call_get_me, Call_send_message (Some 42) (ascii ''hello'')])"
  by (simp add: send_try_cases token0 chat0 sel0(3-5))

lemma diag_lost: "send_diag lib0 (ascii ''Chat not found'') = Send_chat_not_found"
  by (simp add: send_diag_def startswith_def ascii_def)

lemma try_lost: "send_try lib0 cfg0 tg_lost (ascii ''hello'') =
     (Inr False, [Call_get_me, Call_send_message (Some 42) (ascii ''hello''),
                  Print Send_chat_not_found])"
  by (simp add: send_try_cases token0 chat0 sel0(6-8) diag_lost)

lemma try_down: "send_try lib0 cfg0 tg_down (ascii ''hello'') =
     (Inl (OtherException (ascii ''Timed out'')), [Call_get_me])"
  by (simp add: send_try_cases token0 chat0 sel0(9-11))

lemma no_unauth: "\<not> contains (ascii ''Unauthorized'') (ascii ''Timed out'')"
  by (simp add: startswith_def ascii_def)

lemma async_of_try_Inr:
  "send_try L cfg tg m = (Inr b, tr) \<Longrightarrow> send_message L cfg tg m = (Inr b, tr)"
  by (simp add: send_message_same send_message_async_def)

lemma async_of_try_Inl:
  "send_try L cfg tg m = (Inl e, tr) \<Longrightarrow>
   send_message L cfg tg m =
     (Inr False,
      tr @ [Print (if contains (ascii ''Unauthorized'') (exc_msg e) then Init_unauthorized
                   else Init_error (exc_msg e))])"
  by (simp add: send_message_same send_message_async_def)

lemma try_badid:
  "send_try lib0 (cfg0\<lparr>CHAT_ID := Some (ascii ''me'')\<rparr>) tg_up (ascii ''hello'') =
     (Inl (ValueError (ascii ''invalid literal for int() with base 10: '' @ [39] @ ascii ''me'' @ [39])), [])"
proof -
  have c: "chat_id_of lib0 (Some (ascii ''me'')) =
      Inl (ValueError (ascii ''invalid literal for int() with base 10: '' @ [39] @ ascii ''me'' @ [39]))"
    by (simp add: chat_id_of_def lib0_sel py_int0_def) (simp add: ascii_def)
  show ?thesis
    by (simp add: send_try_cases sel0 c) (simp add: ascii_def)
qed

lemma no_unauth2:
  "\<not> contains (ascii ''Unauthorized'')
       (ascii ''invalid literal for int() with base 10: '' @ [39] @ ascii ''me'' @ [39])"
  by (simp add: startswith_def ascii_def)

lemma try_group:
  "send_try lib0 (cfg0\<lparr>CHAT_ID := Some (ascii ''-1001234567890'')\<rparr>) tg_up (ascii ''hello'') =
     (Inr True, [Call_get_me, Call_send_message (Some (- 1001234567890)) (ascii ''hello'')])"
proof -
  have c: "chat_id_of lib0 (Some (ascii ''-1001234567890'')) = Inr (Some (- 1001234567890))"
    by (simp add: chat_id_of_def lib0_sel py_int0_def ascii_def)
  show ?thesis
    by (simp add: send_try_cases c sel0(3-5)) (simp add: sel0 ascii_def)
qed

text \<open>A delivery, a delivery to a group (a negative chat id), an empty and an unset
  token, a send that raises, a \<open>get_me\<close> that raises, and a chat id that is no number.\<close>

theorem send_message_returns_boolean_witness:
  "send_message lib0 cfg0 tg_up (ascii ''hello'') =
     (Inr True, [Call_get_me, Call_send_message (Some 42) (ascii ''hello'')]) \<and>
   send_message lib0 (cfg0\<lparr>CHAT_ID := Some (ascii ''-1001234567890'')\<rparr>) tg_up (ascii ''hello'') =
     (Inr True, [Call_get_me, Call_send_message (Some (- 1001234567890)) (ascii ''hello'')]) \<and>
   send_message lib0 (cfg0\<lparr>BOT_TOKEN := Some []\<rparr>) tg_up (ascii ''hello'') =
     (Inr False, [Print Token_not_set]) \<and>
   send_message lib0 (cfg0\<lparr>BOT_TOKEN := None\<rparr>) tg_up (ascii ''hello'') =
     (Inr False, [Print Token_not_set]) \<and>
   send_message lib0 cfg0 tg_lost (ascii ''hello'') =
     (Inr False, [Call_get_me, Call_send_message (Some 42) (ascii ''hello''),
                  Print Send_chat_not_found]) \<and>
   send_message lib0 cfg0 tg_down (ascii ''hello'') =
     (Inr False, [Call_get_me, Print (Init_error (ascii ''Timed out''))]) \<and>
   send_message lib0 (cfg0\<lparr>CHAT_ID := Some (ascii ''me'')\<rparr>) tg_up (ascii ''hello'') =
     (Inr False,
      [Print (Init_error
                (ascii ''invalid literal for int() with base 10: '' @ [39] @ ascii ''me'' @ [39]))])"
proof -
  have up: "send_message lib0 cfg0 tg_up (ascii ''hello'') =
     (Inr True, [Call_get_me, Call_send_message (Some 42) (ascii ''hello'')])"
    by (rule async_of_try_Inr [OF try_up])
  have group: "send_message lib0 (cfg0\<lparr>CHAT_ID := Some (ascii ''-1001234567890'')\<rparr>) tg_up
      (ascii ''hello'') =
     (Inr True, [Call_get_me, Call_send_message (Some (- 1001234567890)) (ascii ''hello'')])"
    by (rule async_of_try_Inr [OF try_group])
  have lost: "send_message lib0 cfg0 tg_lost (ascii ''hello'') =
     (Inr False, [Call_get_me, Call_send_message (Some 42) (ascii ''hello''),
                  Print Send_chat_not_found])"
    by (rule async_of_try_Inr [OF try_lost])
  have down: "send_message lib0 cfg0 tg_down (ascii ''hello'') =
     (Inr False, [Call_get_me, Print (Init_error (ascii ''Timed out''))])"
    using async_of_try_Inl [OF try_down] no_unauth by simp
  have badid: "send_message lib0 (cfg0\<lparr>CHAT_ID := Some (ascii ''me'')\<rparr>) tg_up (ascii ''hello'') =
     (Inr False,
      [Print (Init_error
                (ascii ''invalid literal for int() with base 10: '' @ [39] @ ascii ''me'' @ [39]))])"
    using async_of_try_Inl [OF try_badid] no_unauth2 by simp
  have t1: "\<not> truthy (BOT_TOKEN (cfg0\<lparr>BOT_TOKEN := Some []\<rparr>))"
    and t2: "\<not> truthy (BOT_TOKEN (cfg0\<lparr>BOT_TOKEN := None\<rparr>))"
    by simp_all
  have e1: "send_message lib0 (cfg0\<lparr>BOT_TOKEN := Some []\<rparr>) tg_up (ascii ''hello'') =
     (Inr False, [Print Token_not_set])"
    using send_message_returns_boolean
      [of lib0 "cfg0\<lparr>BOT_TOKEN := Some []\<rparr>" tg_up "ascii ''hello''"] t1
    by blast
  have e2: "send_message lib0 (cfg0\<lparr>BOT_TOKEN := None\<rparr>) tg_up (ascii ''hello'') =
     (Inr False, [Print Token_not_set])"
    using send_message_returns_boolean
      [of lib0 "cfg0\<lparr>BOT_TOKEN := None\<rparr>" tg_up "ascii ''hello''"] t2
    by blast
  show ?thesis
    using up group lost down badid e1 e2 by blast
qed


section \<open>The exit code of the digest process\<close>

lemma get_today_schedule_Inr: "\<exists>s. get_today_schedule L now http = Inr s"
  by (simp add: get_today_schedule_def split: sum.splits)

lemma get_today_schedule_Raises:
  "\<exists>s. get_today_schedule L now (Raises e) = Inr s \<and> startswith s error_mark"
  by (simp add: get_today_schedule_def schedule_try_def error_text_mark)

lemma main_cases:
  "get_today_schedule L now_fetch http = Inr s \<Longrightarrow>
   main L cfg tg now_fetch now_msg http =
     (if \<not> truthy (BOT_TOKEN cfg) \<or> \<not> truthy (CHAT_ID cfg) then Exit 1
      else if startswith s error_mark then Exit 1
      else if fst (send_message L cfg tg
                    (header_mark @ ascii '' NBA Games Today (''
                       @ strftime L (ascii ''%b %d, %Y'') now_msg @ ascii ''):''
                       @ [10, 10] @ s)) = Inr True
      then Exit 0 else Exit 1)"
proof -
  assume g: "get_today_schedule L now_fetch http = Inr s"
  obtain b tr where r: "send_message L cfg tg
                    (header_mark @ ascii '' NBA Games Today (''
                       @ strftime L (ascii ''%b %d, %Y'') now_msg @ ascii ''):''
                       @ [10, 10] @ s) = (Inr b, tr)"
    using send_message_async_Inr send_message_same by metis
  show ?thesis
    using g r by (cases b) (simp_all add: main_def Let_def)
qed

text \<open>
  Claim C9. The digest process exits with code 0 exactly when the bot token and the chat
  id are both set and non-empty, the text of \<open>get_today_schedule\<close> does not start with the
  error mark, and \<open>send_message\<close> returns true for the message; in every other case it
  exits with code 1, in particular when the token or the chat id is missing.
  \<open>get_today_schedule\<close> raises nothing: when the request raises, it returns a text that
  starts with the error mark, and the process exits with code 1.
\<close>

theorem main_exit_code:
  "(main L cfg tg now_fetch now_msg http = Exit 0 \<longleftrightarrow>
      truthy (BOT_TOKEN cfg) \<and> truthy (CHAT_ID cfg) \<and>
      (\<exists>s. get_today_schedule L now_fetch http = Inr s \<and> \<not> startswith s error_mark \<and>
           fst (send_message L cfg tg
                  (header_mark @ ascii '' NBA Games Today (''
                     @ strftime L (ascii ''%b %d, %Y'') now_msg @ ascii ''):''
                     @ [10, 10] @ s)) = Inr True)) \<and>
   (main L cfg tg now_fetch now_msg http \<noteq> Exit 0 \<longrightarrow>
      main L cfg tg now_fetch now_msg http = Exit 1) \<and>
   (\<not> truthy (BOT_TOKEN cfg) \<or> \<not> truthy (CHAT_ID cfg) \<longrightarrow>
      main L cfg tg now_fetch now_msg http = Exit 1) \<and>
   (\<exists>s. get_today_schedule L now_fetch http = Inr s) \<and>
   (\<exists>s. get_today_schedule L now_fetch (Raises e) = Inr s \<and> startswith s error_mark) \<and>
   main L cfg tg now_fetch now_msg (Raises e) = Exit 1"
proof -
  obtain s where s: "get_today_schedule L now_fetch http = Inr s"
    using get_today_schedule_Inr by blast
  note m = main_cases [OF s, of cfg tg now_msg]
  have a: "main L cfg tg now_fetch now_msg http = Exit 0 \<longleftrightarrow>
      truthy (BOT_TOKEN cfg) \<and> truthy (CHAT_ID cfg) \<and>
      (\<exists>s. get_today_schedule L now_fetch http = Inr s \<and> \<not> startswith s error_mark \<and>
           fst (send_message L cfg tg
                  (header_mark @ ascii '' NBA Games Today (''
                     @ strftime L (ascii ''%b %d, %Y'') now_msg @ ascii ''):''
                     @ [10, 10] @ s)) = Inr True)"
    unfolding m s by auto
  have b: "main L cfg tg now_fetch now_msg http \<noteq> Exit 0 \<Longrightarrow>
      main L cfg tg now_fetch now_msg http = Exit 1"
    unfolding m by (simp split: if_splits)
  have c: "\<not> truthy (BOT_TOKEN cfg) \<or> \<not> truthy (CHAT_ID cfg) \<Longrightarrow>
      main L cfg tg now_fetch now_msg http = Exit 1"
    unfolding m by auto
  obtain s' where s': "get_today_schedule L now_fetch (Raises e) = Inr s'"
      and st: "startswith s' error_mark"
    using get_today_schedule_Raises by blast
  have d: "main L cfg tg now_fetch now_msg (Raises e) = Exit 1"
    unfolding main_cases [OF s', of cfg tg now_msg] using st by simp
  show ?thesis
    using a b c d s s' st by blast
qed

lemma send_up: "fst (send_message lib0 cfg0 tg_up m) = Inr True"
  by (simp add: send_message_same send_message_async_True_iff send_try_True_iff token0 chat0
      sel0(3-5))

lemma send_lost: "fst (send_message lib0 cfg0 tg_lost m) \<noteq> Inr True"
  by (simp add: send_message_same send_message_async_True_iff send_try_True_iff token0 chat0
      sel0(6-8))

lemma digest0_ok:
  "\<not> startswith (ascii ''LAL/PHX'' @ line_sep @ ascii ''8:30 PM MST'' @ [10] @
          ascii ''NYK/BOS'' @ line_sep @ ascii ''5:30 PM MST'') error_mark"
  by (simp add: startswith_def error_mark_def ascii_def)

text \<open>A delivered digest, a send that fails, a request that times out, and a missing
  chat id.\<close>

theorem main_exit_code_witness:
  "main lib0 cfg0 tg_up now0 now0 (board [game_C, game_A]) = Exit 0 \<and>
   main lib0 cfg0 tg_lost now0 now0 (board [game_C, game_A]) = Exit 1 \<and>
   main lib0 cfg0 tg_up now0 now0 (Raises (RequestException (ascii ''Read timed out''))) = Exit 1 \<and>
   get_today_schedule lib0 now0 (Raises (RequestException (ascii ''Read timed out''))) =
     Inr (error_mark @ ascii '' Error fetching schedule: Read timed out'') \<and>
   main lib0 (cfg0\<lparr>CHAT_ID := None\<rparr>) tg_up now0 now0 (board [game_C, game_A]) = Exit 1"
proof -
  note th = main_exit_code [where L = lib0 and now_fetch = now0 and now_msg = now0]
  have c: "truthy (BOT_TOKEN cfg0)" "truthy (CHAT_ID cfg0)" "\<not> truthy (CHAT_ID (cfg0\<lparr>CHAT_ID := None\<rparr>))"
    by (simp_all add: sel0 ascii_def)
  have a: "main lib0 cfg0 tg_up now0 now0 (board [game_C, game_A]) = Exit 0"
    using th [of cfg0 tg_up "board [game_C, game_A]"] c digest0 digest0_ok send_up by blast
  have b: "main lib0 cfg0 tg_lost now0 now0 (board [game_C, game_A]) = Exit 1"
    using th [of cfg0 tg_lost "board [game_C, game_A]"] digest0 send_lost by auto
  have d: "main lib0 cfg0 tg_up now0 now0 (Raises (RequestException (ascii ''Read timed out''))) = Exit 1"
    using th [of cfg0 tg_up _ "RequestException (ascii ''Read timed out'')"] by blast
  have e: "get_today_schedule lib0 now0 (Raises (RequestException (ascii ''Read timed out''))) =
     Inr (error_mark @ ascii '' Error fetching schedule: Read timed out'')"
    by (simp add: get_today_schedule_def schedule_try_def ascii_def)
  have f: "main lib0 (cfg0\<lparr>CHAT_ID := None\<rparr>) tg_up now0 now0 (board [game_C, game_A]) = Exit 1"
    using th [of "cfg0\<lparr>CHAT_ID := None\<rparr>" tg_up "board [game_C, game_A]"] c(3) by blast
  show ?thesis
    using a b d e f by blast
qed


section \<open>The checks of the monitor\<close>

lemma second_to_last_cases:
  "get_second_to_last_game_time games =
     (if length games < 2 then None else Some (games ! (length games - 2)))"
  by (simp add: get_second_to_last_game_time_def)

lemma target_time_cases:
  "target_time L norm i =
     (let games = get_today_games_with_times L norm (fetch_clock i) (fetched i) in
      if length games < 2 then None else Some (fst (games ! (length games - 2))))"
  by (simp add: target_time_def get_second_to_last_game_time_def Let_def)

lemma warning_closed:
  "check_and_send_warning L norm i w =
     (case target_time L norm i of
        None \<Rightarrow> (Inr False, w)
      | Some t \<Rightarrow>
          if \<bar>clock i - (t - 900000000)\<bar> \<le> 60000000 \<and>
             Warning_file (local_date L (clock i)) \<notin> files w
          then (if notifier_returns i then write_outcome (marker_write i) else Inr False,
                \<lparr>files = (if notifier_returns i \<and> \<not> open_raises (marker_write i)
                           then insert (Warning_file (local_date L (clock i))) (files w)
                           else files w),
                 calls = calls w @ [\<lparr>msg = WARNING_MESSAGE, sent_at = clock i,
                                     returned = notifier_returns i\<rparr>]\<rparr>)
          else (Inr False, w))"
  by (cases "get_today_games_with_times L norm (fetch_clock i) (fetched i)";
      cases "marker_write i")
     (auto simp: check_and_send_warning_def target_time_def get_second_to_last_game_time_def
        Let_def)

lemma checkin_closed:
  "check_and_send_checkin L norm i w =
     (case target_time L norm i of
        None \<Rightarrow> (Inr False, w)
      | Some t \<Rightarrow>
          if \<bar>clock i - t\<bar> \<le> 60000000 \<and>
             Checkin_file (local_date L (clock i)) \<notin> files w
          then (if notifier_returns i then write_outcome (marker_write i) else Inr False,
                \<lparr>files = (if notifier_returns i \<and> \<not> open_raises (marker_write i)
                           then insert (Checkin_file (local_date L (clock i))) (files w)
                           else files w),
                 calls = calls w @ [\<lparr>msg = CHECKIN_MESSAGE, sent_at = clock i,
                                     returned = notifier_returns i\<rparr>]\<rparr>)
          else (Inr False, w))"
  by (cases "get_today_games_with_times L norm (fetch_clock i) (fetched i)";
      cases "marker_write i")
     (auto simp: check_and_send_checkin_def target_time_def get_second_to_last_game_time_def
        Let_def)

lemma write_outcome_True: "(write_outcome r = Inr True) = (r = Written)"
  by (cases r) simp_all

text \<open>
  Claim C2. For every retrieved schedule: with fewer than 2 games
  \<open>get_second_to_last_game_time\<close> returns \<open>None\<close> and neither check does anything. With
  at least 2 games, the list is in ascending order of time and the target is the game at
  index \<open>count - 2\<close>; the warning check calls the Notifier, once and with the warning
  text, exactly when the clock is within 60 seconds of 15 minutes before the target's time
  and no warning marker of today exists; it returns true exactly when that call returned
  true and the marker was written, raises what the writing of the marker raised, and
  returns false in every other case. The check-in check does so with the check-in text
  exactly when the clock is within 60 seconds of the target's time and no check-in
  marker of today exists.
\<close>

theorem trigger_conditions:
  "(let games = get_today_games_with_times L norm (fetch_clock i) (fetched i);
        now = clock i
    in
    sorted (map fst games) \<and>
    (length games < 2 \<longrightarrow>
       get_second_to_last_game_time games = None \<and>
       check_and_send_warning L norm i w = (Inr False, w) \<and>
       check_and_send_checkin L norm i w = (Inr False, w)) \<and>
    (2 \<le> length games \<longrightarrow>
       get_second_to_last_game_time games = Some (games ! (length games - 2)) \<and>
       (let target = fst (games ! (length games - 2));
            warning_due = (\<bar>now - (target - 900000000)\<bar> \<le> 60000000 \<and>
                           Warning_file (local_date L now) \<notin> files w);
            checkin_due = (\<bar>now - target\<bar> \<le> 60000000 \<and>
                           Checkin_file (local_date L now) \<notin> files w)
        in
        calls (snd (check_and_send_warning L norm i w)) =
          (if warning_due
           then calls w @ [\<lparr>msg = WARNING_MESSAGE, sent_at = now,
                              returned = notifier_returns i\<rparr>]
           else calls w) \<and>
        fst (check_and_send_warning L norm i w) =
          (if warning_due \<and> notifier_returns i then write_outcome (marker_write i)
           else Inr False) \<and>
        (fst (check_and_send_warning L norm i w) = Inr True \<longleftrightarrow>
           warning_due \<and> notifier_returns i \<and> marker_write i = Written) \<and>
        calls (snd (check_and_send_checkin L norm i w)) =
          (if checkin_due
           then calls w @ [\<lparr>msg = CHECKIN_MESSAGE, sent_at = now,
                              returned = notifier_returns i\<rparr>]
           else calls w) \<and>
        fst (check_and_send_checkin L norm i w) =
          (if checkin_due \<and> notifier_returns i then write_outcome (marker_write i)
           else Inr False) \<and>
        (fst (check_and_send_checkin L norm i w) = Inr True \<longleftrightarrow>
           checkin_due \<and> notifier_returns i \<and> marker_write i = Written))))"
proof -
  let ?games = "get_today_games_with_times L norm (fetch_clock i) (fetched i)"
  have s: "sorted (map fst ?games)"
    by (rule games_sorted)
  have few: "length ?games < 2 \<Longrightarrow>
       get_second_to_last_game_time ?games = None \<and>
       check_and_send_warning L norm i w = (Inr False, w) \<and>
       check_and_send_checkin L norm i w = (Inr False, w)"
    by (simp add: warning_closed checkin_closed target_time_cases second_to_last_cases Let_def)
  have many: "2 \<le> length ?games \<Longrightarrow>
       target_time L norm i = Some (fst (?games ! (length ?games - 2)))"
    by (simp add: target_time_cases Let_def)
  show ?thesis
    unfolding Let_def
    using s few
    by (auto simp: warning_closed checkin_closed many second_to_last_cases write_outcome_True)
qed

lemma input_at_sel:
  "clock (input_at t es b fr) = t" "fetch_clock (input_at t es b fr) = t"
  "fetched (input_at t es b fr) = board es" "notifier_returns (input_at t es b fr) = b"
  "marker_write (input_at t es b fr) = fr"
  by (simp_all add: input_at_def)

lemma fetch3:
  "local_date lib0 t = 19737 \<Longrightarrow>
   get_today_games_with_times lib0 (normalize_team_abbrev U0) t (board [game_C, game_A, game_B]) =
     [(1705365000000000, JStr (ascii ''NYK/BOS'')), (1705370400000000, JStr (ascii ''GSW/UTA'')),
      (1705375800000000, JStr (ascii ''LAL/PHX''))]"
  by (simp add: get_games_board ev_A ev_B ev_C)

lemma fetch1:
  "local_date lib0 t = 19737 \<Longrightarrow>
   get_today_games_with_times lib0 (normalize_team_abbrev U0) t (board [game_A]) =
     [(1705365000000000, JStr (ascii ''NYK/BOS''))]"
  by (simp add: get_games_board ev_A)

lemma days0:
  "local_date lib0 now0 = 19737" "local_date lib0 (now0 + 60000000) = 19737"
  "local_date lib0 (now0 + 60000001) = 19737" "local_date lib0 (now0 + 900000000) = 19737"
  by (simp_all add: local_date0 now0_def)

text \<open>
  Games at 17:30, 19:00 and 20:30: the warning is sent at 18:45 and 60 seconds later, not
  61 seconds later; the check-in is sent at 19:00 and not at 18:45; when \<open>open\<close> raises
  after the warning was sent, the check raises. With one game nothing is sent.
\<close>

theorem trigger_conditions_witness:
  "get_today_games_with_times lib0 (normalize_team_abbrev U0) now0 (board [game_C, game_A, game_B]) =
     [(1705365000000000, JStr (ascii ''NYK/BOS'')), (1705370400000000, JStr (ascii ''GSW/UTA'')),
      (1705375800000000, JStr (ascii ''LAL/PHX''))] \<and>
   now0 = 1705370400000000 - 900000000 \<and>
   fst (check_and_send_warning lib0 (normalize_team_abbrev U0)
          (input_at now0 [game_C, game_A, game_B] True Written) world0) = Inr True \<and>
   calls (snd (check_and_send_warning lib0 (normalize_team_abbrev U0)
          (input_at now0 [game_C, game_A, game_B] True Written) world0)) =
     [\<lparr>msg = WARNING_MESSAGE, sent_at = now0, returned = True\<rparr>] \<and>
   check_and_send_checkin lib0 (normalize_team_abbrev U0)
          (input_at now0 [game_C, game_A, game_B] True Written) world0 = (Inr False, world0) \<and>
   fst (check_and_send_warning lib0 (normalize_team_abbrev U0)
          (input_at (now0 + 60000000) [game_C, game_A, game_B] True Written) world0) = Inr True \<and>
   check_and_send_warning lib0 (normalize_team_abbrev U0)
          (input_at (now0 + 60000001) [game_C, game_A, game_B] True Written) world0 =
     (Inr False, world0) \<and>
   fst (check_and_send_checkin lib0 (normalize_team_abbrev U0)
          (input_at (now0 + 900000000) [game_C, game_A, game_B] True Written) world0) = Inr True \<and>
   fst (check_and_send_warning lib0 (normalize_team_abbrev U0)
          (input_at now0 [game_C, game_A, game_B] True
             (Open_raises (OtherException (ascii ''No such file or directory'')))) world0) =
     Inl (OtherException (ascii ''No such file or directory'')) \<and>
   check_and_send_warning lib0 (normalize_team_abbrev U0)
          (input_at now0 [game_A] True Written) world0 = (Inr False, world0) \<and>
   check_and_send_checkin lib0 (normalize_team_abbrev U0)
          (input_at now0 [game_A] True Written) world0 = (Inr False, world0)"
proof -
  let ?N = "normalize_team_abbrev U0"
  let ?E = "OtherException (ascii ''No such file or directory'')"
  have n: "now0 = 1705370400000000 - 900000000"
    by (simp add: now0_def)
  have f0: "files world0 = {}" "calls world0 = []"
    by (simp_all add: world0_def)
  have a: "fst (check_and_send_warning lib0 ?N (input_at now0 [game_C, game_A, game_B] True Written) world0) = Inr True \<and>
      calls (snd (check_and_send_warning lib0 ?N (input_at now0 [game_C, game_A, game_B] True Written) world0)) =
        [\<lparr>msg = WARNING_MESSAGE, sent_at = now0, returned = True\<rparr>]"
    using trigger_conditions [of lib0 ?N "input_at now0 [game_C, game_A, game_B] True Written" world0]
    by (simp add: input_at_sel fetch3 days0 f0 Let_def) (simp add: now0_def)
  have b: "fst (check_and_send_warning lib0 ?N
          (input_at (now0 + 60000000) [game_C, game_A, game_B] True Written) world0) = Inr True"
    using trigger_conditions [of lib0 ?N "input_at (now0 + 60000000) [game_C, game_A, game_B] True Written" world0]
    by (simp add: input_at_sel fetch3 days0 f0 Let_def) (simp add: now0_def)
  have c: "fst (check_and_send_checkin lib0 ?N
          (input_at (now0 + 900000000) [game_C, game_A, game_B] True Written) world0) = Inr True"
    using trigger_conditions [of lib0 ?N "input_at (now0 + 900000000) [game_C, game_A, game_B] True Written" world0]
    by (simp add: input_at_sel fetch3 days0 f0 Let_def) (simp add: now0_def)
  have r: "fst (check_and_send_warning lib0 ?N
          (input_at now0 [game_C, game_A, game_B] True (Open_raises ?E)) world0) = Inl ?E"
    using trigger_conditions [of lib0 ?N "input_at now0 [game_C, game_A, game_B] True (Open_raises ?E)" world0]
    by (simp add: input_at_sel fetch3 days0 f0 Let_def) (simp add: now0_def)
  have d: "check_and_send_warning lib0 ?N (input_at now0 [game_A] True Written) world0 = (Inr False, world0) \<and>
      check_and_send_checkin lib0 ?N (input_at now0 [game_A] True Written) world0 = (Inr False, world0)"
    using trigger_conditions [of lib0 ?N "input_at now0 [game_A] True Written" world0]
    by (simp add: input_at_sel fetch1 days0 Let_def)
  have t3: "\<And>t. local_date lib0 t = 19737 \<Longrightarrow>
      target_time lib0 ?N (input_at t [game_C, game_A, game_B] True Written) = Some 1705370400000000"
    by (simp add: target_time_cases input_at_sel fetch3)
  have e: "check_and_send_checkin lib0 ?N (input_at now0 [game_C, game_A, game_B] True Written) world0 =
      (Inr False, world0)"
    by (simp add: checkin_closed t3 days0 input_at_sel) (simp add: now0_def)
  have g: "check_and_send_warning lib0 ?N
          (input_at (now0 + 60000001) [game_C, game_A, game_B] True Written) world0 = (Inr False, world0)"
    by (simp add: warning_closed t3 days0 input_at_sel) (simp add: now0_def)
  show ?thesis
    using n a b c r d e g fetch3 [OF days0(1)] by blast
qed

section \<open>Calls and deliveries for each trigger and date\<close>













































end
